theory Spec2Isabelle
  imports Main "HOL-Library.Word" "HOL-Library.Monad_Syntax"
begin

unbundle bit_operations_syntax

section \<open>Strings and formatting\<close>

text \<open>
  Go strings are byte strings; they are modelled as \<open>string\<close> (a list of characters).
  An \<open>error\<close> value is modelled by its message.
\<close>

type_synonym error = string

fun digits :: "nat \<Rightarrow> string" where
  "digits n = (if n < 10 then [char_of (48 + n)]
               else digits (n div 10) @ [char_of (48 + n mod 10)])"

declare digits.simps [simp del]

text \<open>The verb \<open>%d\<close> of \<open>fmt\<close> on an \<open>int\<close>.\<close>

definition fmt_d :: "int \<Rightarrow> string" where
  "fmt_d i = (if i < 0 then CHR ''-'' # digits (nat (- i)) else digits (nat i))"

text \<open>\<open>strings.Join\<close>.\<close>

fun Join :: "string list \<Rightarrow> string \<Rightarrow> string" where
  "Join [] sep = []"
| "Join [x] sep = x"
| "Join (x # y # ys) sep = x @ sep @ Join (y # ys) sep"

section \<open>netplan: the configuration types (types.go)\<close>

text \<open>
  Only the fields read by the functions below are kept. The maps of \<open>Network\<close> hold
  pointers: an entry is \<open>None\<close> for a nil pointer and \<open>Some v\<close> otherwise. A Go map is an
  association list; the order of the list stands for the order in which \<open>range\<close> visits
  the map, which Go leaves unspecified.
\<close>

record CommonInterface =
  Addresses :: "string list"
  MTU :: int

record Ethernet = CommonInterface +
  EthernetLink :: string

record Wifi = CommonInterface +
  Regulatory :: string

record Bridge = CommonInterface +
  BridgeInterfaces :: "string list"

record Bond = CommonInterface +
  BondInterfaces :: "string list"

record VLAN = CommonInterface +
  ID :: int
  Link :: string

record Tunnel = CommonInterface +
  Mode :: string
  Local :: string
  Remote :: string

record VRF =
  Table :: int
  VRFInterfaces :: "string list"

record Modem = CommonInterface +
  APN :: string

type_synonym 'v gomap = "(string \<times> 'v option) list"

record Network =
  Version :: int
  Renderer :: string
  Ethernets :: "Ethernet gomap"
  Wifis :: "Wifi gomap"
  Bridges :: "Bridge gomap"
  Bonds :: "Bond gomap"
  VLANs :: "VLAN gomap"
  Tunnels :: "Tunnel gomap"
  VRFs :: "VRF gomap"
  Modems :: "Modem gomap"

record Config =
  Network :: Network

text \<open>
  \<open>for name, x := range m { ... }\<close> where the body reads a field of \<open>x\<close>: the state is
  threaded through the entries; a nil entry makes the body panic, which is the result
  \<open>None\<close> of the whole loop.
\<close>

fun for_range :: "'v gomap \<Rightarrow> (string \<Rightarrow> 'v \<Rightarrow> 's \<Rightarrow> 's option) \<Rightarrow> 's \<Rightarrow> 's option" where
  "for_range [] body s = Some s"
| "for_range ((name, p) # rest) body s =
     (case p of
        None \<Rightarrow> None
      | Some v \<Rightarrow> (case body name v s of None \<Rightarrow> None | Some s' \<Rightarrow> for_range rest body s'))"

text \<open>\<open>for name := range m { ... }\<close>: the values are not read.\<close>

fun for_keys :: "'v gomap \<Rightarrow> (string \<Rightarrow> 's \<Rightarrow> 's option) \<Rightarrow> 's \<Rightarrow> 's option" where
  "for_keys [] body s = Some s"
| "for_keys ((name, p) # rest) body s =
     (case body name s of None \<Rightarrow> None | Some s' \<Rightarrow> for_keys rest body s')"

section \<open>netplan: addresses and subnets (config.go)\<close>

definition stripCIDR :: "string \<Rightarrow> string" where
  "stripCIDR ip = takeWhile (\<lambda>ch. ch \<noteq> CHR ''/'') ip"

subsection \<open>The package \<open>net\<close> of the Go standard library\<close>

text \<open>
  \<open>net.IP\<close> and \<open>net.IPMask\<close> are byte slices, \<open>net.IPNet\<close> is a pair of them. The two
  parsers \<open>net.ParseCIDR\<close> and \<open>net.ParseIP\<close> are not part of the repository: the
  functions that call them take them as the parameter \<open>L\<close>. \<open>None\<close> is the parse error
  of \<open>ParseCIDR\<close> and the nil result of \<open>ParseIP\<close>.
\<close>

type_synonym IP = "8 word list"

record IPNet =
  NetIP :: IP
  NetMask :: IP

record NetLib =
  ParseCIDR :: "string \<Rightarrow> (IP \<times> IPNet) option"
  ParseIP :: "string \<Rightarrow> IP option"

definition v4InV6Prefix :: IP where
  "v4InV6Prefix = [0, 0, 0, 0, 0, 0, 0, 0, 0, 0, 0xff, 0xff]"

text \<open>\<open>IP.To4\<close>; \<open>None\<close> is the nil slice.\<close>

definition To4 :: "IP \<Rightarrow> IP option" where
  "To4 ip = (if length ip = 4 then Some ip
             else if length ip = 16 \<and> take 12 ip = v4InV6Prefix then Some (drop 12 ip)
             else None)"

text \<open>\<open>networkNumberAndMask\<close>; the result \<open>(nil, nil)\<close> is \<open>([], [])\<close>.\<close>

definition networkNumberAndMask :: "IPNet \<Rightarrow> IP \<times> IP" where
  "networkNumberAndMask n =
     (case (case To4 (NetIP n) of
              Some ip \<Rightarrow> Some ip
            | None \<Rightarrow> if length (NetIP n) \<noteq> 16 then None else Some (NetIP n)) of
        None \<Rightarrow> ([], [])
      | Some ip \<Rightarrow>
          if length (NetMask n) = 4 then
            (if length ip \<noteq> 4 then ([], []) else (ip, NetMask n))
          else if length (NetMask n) = 16 then
            (if length ip = 4 then (ip, drop 12 (NetMask n)) else (ip, NetMask n))
          else ([], []))"

text \<open>\<open>IPNet.Contains\<close>: the byte-wise comparison under the mask.\<close>

definition Contains :: "IPNet \<Rightarrow> IP \<Rightarrow> bool" where
  "Contains n ip0 =
     (let (nn, m) = networkNumberAndMask n;
          ip = (case To4 ip0 of Some x \<Rightarrow> x | None \<Rightarrow> ip0)
      in if length ip \<noteq> length nn then False
         else list_all (\<lambda>i. (nn ! i) AND (m ! i) = (ip ! i) AND (m ! i)) [0 ..< length ip])"

subsection \<open>InSameSubnet\<close>

definition InSameSubnet :: "NetLib \<Rightarrow> string \<Rightarrow> string \<Rightarrow> bool" where
  "InSameSubnet L ip1CIDR ip2 =
     (case ParseCIDR L ip1CIDR of
        None \<Rightarrow> False
      | Some (_, ipNet1) \<Rightarrow>
          (case ParseIP L (stripCIDR ip2) of
             None \<Rightarrow> False
           | Some ip2Addr \<Rightarrow> Contains ipNet1 ip2Addr))"

subsection \<open>The IPv4 text forms of the library\<close>

text \<open>
  Modelled from the Go standard library (packages \<open>net\<close> and \<open>net/netip\<close>), which is not
  part of the repository: the dotted-decimal IPv4 forms only. \<open>parseIPv4\<close> wants four
  fields of decimal digits separated by dots, none empty, none with a leading zero, each
  at most 255; \<open>dtoi\<close> reads the prefix length, which must be all digits and at most 32.
  An IPv6 text is outside this instance (it yields \<open>None\<close> here); the general theorems
  below hold for every library \<open>L\<close>, and this instance serves the concrete IPv4 scenarios.
\<close>

definition is_digit :: "char \<Rightarrow> bool" where
  "is_digit ch = (48 \<le> (of_char ch :: nat) \<and> (of_char ch :: nat) \<le> 57)"

fun splitOn :: "char \<Rightarrow> string \<Rightarrow> string list" where
  "splitOn sep [] = [[]]"
| "splitOn sep (ch # s) =
     (if ch = sep then [] # splitOn sep s
      else (case splitOn sep s of [] \<Rightarrow> [[ch]] | f # fs \<Rightarrow> (ch # f) # fs))"

definition decimal :: "string \<Rightarrow> nat" where
  "decimal s = foldl (\<lambda>n ch. n * 10 + (of_char ch - 48)) 0 s"

definition parse_octet :: "string \<Rightarrow> 8 word option" where
  "parse_octet f =
     (if f = [] \<or> \<not> list_all is_digit f then None
      else if 1 < length f \<and> hd f = CHR ''0'' then None
      else if 255 < decimal f then None
      else Some (of_nat (decimal f)))"

definition parseIPv4 :: "string \<Rightarrow> IP option" where
  "parseIPv4 s =
     (case map parse_octet (splitOn CHR ''.'' s) of
        [Some a, Some b, Some c, Some d] \<Rightarrow> Some [a, b, c, d]
      | _ \<Rightarrow> None)"

text \<open>\<open>Addr.As16\<close> of an IPv4 address.\<close>

definition As16 :: "IP \<Rightarrow> IP" where
  "As16 ip4 = v4InV6Prefix @ ip4"

fun CIDRMask :: "nat \<Rightarrow> nat \<Rightarrow> IP" where
  "CIDRMask n 0 = []"
| "CIDRMask n (Suc l) =
     (if 8 \<le> n then 0xff # CIDRMask (n - 8) l
      else NOT (drop_bit n (0xff :: 8 word)) # CIDRMask 0 l)"

text \<open>\<open>IP.Mask\<close>; the nil result is \<open>[]\<close>.\<close>

definition IPMask :: "IP \<Rightarrow> IP \<Rightarrow> IP" where
  "IPMask ip0 mask0 =
     (let mask = (if length mask0 = 16 \<and> length ip0 = 4 \<and> list_all (\<lambda>b. b = 0xff) (take 12 mask0)
                  then drop 12 mask0 else mask0);
          ip = (if length mask = 4 \<and> length ip0 = 16 \<and> take 12 ip0 = v4InV6Prefix
                then drop 12 ip0 else ip0)
      in if length ip \<noteq> length mask then [] else map (\<lambda>(a, b). a AND b) (zip ip mask))"

definition ParseCIDR4 :: "string \<Rightarrow> (IP \<times> IPNet) option" where
  "ParseCIDR4 s =
     (if CHR ''/'' \<notin> set s then None
      else
        let addr = takeWhile (\<lambda>ch. ch \<noteq> CHR ''/'') s;
            mask = tl (dropWhile (\<lambda>ch. ch \<noteq> CHR ''/'') s)
        in (case parseIPv4 addr of
              None \<Rightarrow> None
            | Some ip4 \<Rightarrow>
                if mask = [] \<or> \<not> list_all is_digit mask \<or> 32 < decimal mask then None
                else
                  let m = CIDRMask (decimal mask) 4
                  in Some (As16 ip4, \<lparr>NetIP = IPMask (As16 ip4) m, NetMask = m\<rparr>)))"

definition ParseIP4 :: "string \<Rightarrow> IP option" where
  "ParseIP4 s = map_option As16 (parseIPv4 s)"

definition net4 :: NetLib where
  "net4 = \<lparr>ParseCIDR = ParseCIDR4, ParseIP = ParseIP4\<rparr>"

section \<open>netplan: loading descriptor documents (config.go)\<close>

text \<open>
  The file system and the YAML decoder are the environment of the loader:
  \<open>filepath.Glob\<close>, \<open>filepath.Join\<close>, \<open>os.ReadFile\<close> and \<open>yaml.Unmarshal\<close> into a
  \<open>Config\<close>. \<open>Inl\<close> carries the error.
\<close>

record Env =
  Glob :: "string \<Rightarrow> error + string list"
  PathJoin :: "string \<Rightarrow> string \<Rightarrow> string"
  ReadFile :: "string \<Rightarrow> error + string"
  Unmarshal :: "string \<Rightarrow> error + Config"

definition LoadConfig :: "Env \<Rightarrow> string \<Rightarrow> error + Config" where
  "LoadConfig E filename =
     (case ReadFile E filename of
        Inl err \<Rightarrow> Inl (''failed to read file '' @ filename @ '': '' @ err)
      | Inr data \<Rightarrow>
          (case Unmarshal E data of
             Inl err \<Rightarrow> Inl (''failed to unmarshal YAML: '' @ err)
           | Inr config \<Rightarrow> Inr config))"

text \<open>The loop of \<open>LoadNetplanConfigsFromDir\<close> over the files found.\<close>

fun load_files :: "Env \<Rightarrow> string list \<Rightarrow> Config list \<Rightarrow> error + Config list" where
  "load_files E [] configs = Inr configs"
| "load_files E (file # files) configs =
     (case LoadConfig E file of
        Inl err \<Rightarrow> Inl (''failed to load config from '' @ file @ '': '' @ err)
      | Inr config \<Rightarrow> load_files E files (configs @ [config]))"

definition LoadNetplanConfigsFromDir :: "Env \<Rightarrow> string \<Rightarrow> error + Config list" where
  "LoadNetplanConfigsFromDir E dir =
     (case Glob E (PathJoin E dir ''*.yaml'') of
        Inl err \<Rightarrow> Inl (''failed to glob yaml files in '' @ dir @ '': '' @ err)
      | Inr files \<Rightarrow>
          (case Glob E (PathJoin E dir ''*.yml'') of
             Inl err \<Rightarrow> Inl (''failed to glob yml files in '' @ dir @ '': '' @ err)
           | Inr ymlFiles \<Rightarrow> load_files E (files @ ymlFiles) []))"

section \<open>netplan: validation (config.go)\<close>

definition validateInterfaceName :: "string \<Rightarrow> error option" where
  "validateInterfaceName name =
     (if name = [] then Some ''interface name cannot be empty''
      else if 15 < length name
        then Some (''interface name too long: '' @ name @ '' (max 15 characters)'')
      else None)"

definition validateCommonInterface :: "'a CommonInterface_scheme \<Rightarrow> error list" where
  "validateCommonInterface iface =
     concat (map (\<lambda>addr. if CHR ''/'' \<notin> set addr
                          then [''address '' @ addr @ '' must include subnet mask''] else [])
                 (Addresses iface))
     @ (if MTU iface \<noteq> 0 \<and> (MTU iface < 68 \<or> 65536 < MTU iface)
        then [''invalid MTU '' @ fmt_d (MTU iface) @ '' (must be 68-65536)''] else [])"

text \<open>
  The body shared by the loops over ethernets, wifis, bridges and bonds; \<open>kind\<close> is the
  word that starts the message.
\<close>

definition validate_entry ::
  "string \<Rightarrow> string \<Rightarrow> 'a CommonInterface_scheme \<Rightarrow> error list \<Rightarrow> error list option" where
  "validate_entry kind name iface errors =
     Some (errors
       @ (case validateInterfaceName name of
            None \<Rightarrow> []
          | Some err \<Rightarrow> [kind @ '' '' @ name @ '': '' @ err])
       @ map (\<lambda>err. kind @ '' '' @ name @ '': '' @ err) (validateCommonInterface iface))"

definition validate_vlan :: "string \<Rightarrow> VLAN \<Rightarrow> error list \<Rightarrow> error list option" where
  "validate_vlan name vlan errors =
     Some (errors
       @ (case validateInterfaceName name of
            None \<Rightarrow> []
          | Some err \<Rightarrow> [''vlan '' @ name @ '': '' @ err])
       @ (if ID vlan < 1 \<or> 4094 < ID vlan
          then [''vlan '' @ name @ '': invalid VLAN ID '' @ fmt_d (ID vlan) @ '' (must be 1-4094)'']
          else [])
       @ (if Link vlan = [] then [''vlan '' @ name @ '': link is required''] else []))"

definition validRenderers :: "string list" where
  "validRenderers = [''networkd'', ''NetworkManager'']"

text \<open>\<open>Validate\<close>; \<open>None\<close> is the panic on a nil entry of one of the maps it reads.\<close>

definition Validate :: "Config \<Rightarrow> error list option" where
  "Validate c =
     (let n = Network c;
          errors0 = (if Version n \<noteq> 2
                     then [''unsupported network version: '' @ fmt_d (Version n)
                             @ '' (only version 2 is supported)'']
                     else []);
          errors1 = errors0 @
                    (if Renderer n \<noteq> [] \<and> Renderer n \<notin> set validRenderers
                     then [''invalid renderer: '' @ Renderer n @ '' (must be one of: ''
                             @ Join validRenderers '', '' @ '')'']
                     else [])
      in do {
        errors2 \<leftarrow> for_range (Ethernets n) (validate_entry ''ethernet'') errors1;
        errors3 \<leftarrow> for_range (Wifis n) (validate_entry ''wifi'') errors2;
        errors4 \<leftarrow> for_range (Bridges n) (validate_entry ''bridge'') errors3;
        errors5 \<leftarrow> for_range (Bonds n) (validate_entry ''bond'') errors4;
        for_range (VLANs n) validate_vlan errors5
      })"

text \<open>\<open>GetInterfaceNames\<close> ranges over the keys of the eight maps and reads no entry.\<close>

definition GetInterfaceNames :: "Config \<Rightarrow> string list" where
  "GetInterfaceNames c =
     (let n = Network c
      in map fst (Ethernets n) @ map fst (Wifis n) @ map fst (Bridges n) @ map fst (Bonds n)
         @ map fst (VLANs n) @ map fst (Tunnels n) @ map fst (VRFs n) @ map fst (Modems n))"

section \<open>netplan: the interfaces and addresses related to a bond (config.go)\<close>

text \<open>
  A lookup \<open>m[key]\<close> in a map of pointers: \<open>None\<close> when the key is absent, \<open>Some None\<close>
  when it holds nil.
\<close>

definition lookup :: "'v gomap \<Rightarrow> string \<Rightarrow> 'v option option" where
  "lookup m key = map_of m key"

text \<open>
  \<open>isBondRelated\<close>; \<open>None\<close> is the panic on reading a field of a nil VLAN or bridge.
\<close>

definition isBondRelated :: "Config \<Rightarrow> string \<Rightarrow> string \<Rightarrow> bool option" where
  "isBondRelated c bondName interfaceName =
     (if interfaceName = bondName then Some True
      else do {
        viaVLAN \<leftarrow>
          (case lookup (VLANs (Network c)) interfaceName of
             None \<Rightarrow> Some False
           | Some None \<Rightarrow> None
           | Some (Some vlan) \<Rightarrow>
               if Link vlan = bondName then Some True
               else (case lookup (Bridges (Network c)) (Link vlan) of
                       None \<Rightarrow> Some False
                     | Some None \<Rightarrow> None
                     | Some (Some bridge) \<Rightarrow> Some (bondName \<in> set (BridgeInterfaces bridge))));
        if viaVLAN then Some True
        else (case lookup (Bridges (Network c)) interfaceName of
                None \<Rightarrow> Some False
              | Some None \<Rightarrow> None
              | Some (Some bridge) \<Rightarrow> Some (bondName \<in> set (BridgeInterfaces bridge)))
      })"

text \<open>
  The inner loop of case 5: the members of a bridge are scanned in order for one that
  names a VLAN whose link is the bond (and, in \<open>GetBondIPAddresses\<close>, only when the bridge
  has addresses: \<open>cond\<close>); the scan stops at the first hit.
\<close>

fun has_vlan_on_bond :: "Config \<Rightarrow> string \<Rightarrow> bool \<Rightarrow> string list \<Rightarrow> bool option" where
  "has_vlan_on_bond c bondName cond [] = Some False"
| "has_vlan_on_bond c bondName cond (iface # rest) =
     (case lookup (VLANs (Network c)) iface of
        None \<Rightarrow> has_vlan_on_bond c bondName cond rest
      | Some None \<Rightarrow> None
      | Some (Some vlan) \<Rightarrow>
          if Link vlan = bondName \<and> cond then Some True
          else has_vlan_on_bond c bondName cond rest)"

definition GetAllBondRelatedInterfaces :: "Config \<Rightarrow> string \<Rightarrow> string list option" where
  "GetAllBondRelatedInterfaces c bondName =
     (let n = Network c in
      case lookup (Bonds n) bondName of
        None \<Rightarrow> Some []
      | Some _ \<Rightarrow> do {
          interfaces1 \<leftarrow> for_range (VLANs n)
            (\<lambda>vlanName vlan interfaces.
               Some (if Link vlan = bondName then interfaces @ [vlanName] else interfaces))
            [bondName];
          interfaces2 \<leftarrow> for_range (Bridges n)
            (\<lambda>bridgeName bridge interfaces.
               Some (if bondName \<in> set (BridgeInterfaces bridge)
                     then interfaces @ [bridgeName] else interfaces))
            interfaces1;
          interfaces3 \<leftarrow> for_range (VLANs n)
            (\<lambda>vlanName vlan interfaces.
               case lookup (Bridges n) (Link vlan) of
                 None \<Rightarrow> Some interfaces
               | Some None \<Rightarrow> None
               | Some (Some bridge) \<Rightarrow>
                   Some (if bondName \<in> set (BridgeInterfaces bridge)
                         then interfaces @ [vlanName] else interfaces))
            interfaces2;
          for_keys (Tunnels n)
            (\<lambda>tunnelName interfaces.
               map_option (\<lambda>related. if related then interfaces @ [tunnelName] else interfaces)
                 (isBondRelated c bondName tunnelName))
            interfaces3
        })"

text \<open>
  The result of \<open>GetBondIPAddresses\<close> is a map from interface names to address lists,
  kept as an association list in the order in which the keys were first written.
  \<open>append_at\<close> is \<open>result[name] = append(result[name], x)\<close>.
\<close>

fun append_at :: "(string \<times> string list) list \<Rightarrow> string \<Rightarrow> string \<Rightarrow> (string \<times> string list) list" where
  "append_at [] name x = [(name, [x])]"
| "append_at ((k, xs) # rest) name x =
     (if k = name then (k, xs @ [x]) # rest else (k, xs) # append_at rest name x)"

definition add_stripped ::
  "(string \<times> string list) list \<Rightarrow> string \<Rightarrow> string list \<Rightarrow> (string \<times> string list) list" where
  "add_stripped result name addrs = foldl (\<lambda>r addr. append_at r name (stripCIDR addr)) result addrs"

definition GetBondIPAddresses :: "Config \<Rightarrow> string \<Rightarrow> (string \<times> string list) list option" where
  "GetBondIPAddresses c bondName =
     (let n = Network c in
      case lookup (Bonds n) bondName of
        None \<Rightarrow> Some []
      | Some None \<Rightarrow> None
      | Some (Some bond) \<Rightarrow> do {
          result2 \<leftarrow> for_range (VLANs n)
            (\<lambda>vlanName vlan result.
               Some (if Link vlan = bondName \<and> Addresses vlan \<noteq> []
                     then add_stripped result vlanName (Addresses vlan) else result))
            (if Addresses bond \<noteq> [] then add_stripped [] bondName (Addresses bond) else []);
          result3 \<leftarrow> for_range (Bridges n)
            (\<lambda>bridgeName bridge result.
               Some (if bondName \<in> set (BridgeInterfaces bridge) \<and> Addresses bridge \<noteq> []
                     then add_stripped result bridgeName (Addresses bridge) else result))
            result2;
          result4 \<leftarrow> for_range (VLANs n)
            (\<lambda>vlanName vlan result.
               case lookup (Bridges n) (Link vlan) of
                 None \<Rightarrow> Some result
               | Some None \<Rightarrow> None
               | Some (Some bridge) \<Rightarrow>
                   Some (if bondName \<in> set (BridgeInterfaces bridge) \<and> Addresses vlan \<noteq> []
                         then add_stripped result vlanName (Addresses vlan) else result))
            result3;
          result5 \<leftarrow> for_range (Bridges n)
            (\<lambda>bridgeName bridge result.
               map_option (\<lambda>hit. if hit then add_stripped result bridgeName (Addresses bridge)
                                  else result)
                 (has_vlan_on_bond c bondName (Addresses bridge \<noteq> []) (BridgeInterfaces bridge)))
            result4;
          for_range (Tunnels n)
            (\<lambda>tunnelName tunnel result.
               if Addresses tunnel \<noteq> [] then
                 map_option (\<lambda>related. if related
                                         then add_stripped result tunnelName (Addresses tunnel)
                                         else result)
                   (isBondRelated c bondName tunnelName)
               else Some result)
            result5
        })"

record IPWithMask =
  IP :: string
  CIDR :: string
  IPNet :: IPNet
  BondName :: string

text \<open>The closure \<open>addIPWithMask\<close>: an address that does not parse is left out.\<close>

definition addIPWithMask :: "NetLib \<Rightarrow> IPWithMask list \<Rightarrow> string \<Rightarrow> string \<Rightarrow> IPWithMask list" where
  "addIPWithMask L result addr interfaceName =
     (case ParseCIDR L addr of
        None \<Rightarrow> result
      | Some (_, ipNet) \<Rightarrow>
          result @ [\<lparr>IP = stripCIDR addr, CIDR = addr, IPNet = ipNet, BondName = interfaceName\<rparr>])"

definition add_masked :: "NetLib \<Rightarrow> IPWithMask list \<Rightarrow> string \<Rightarrow> string list \<Rightarrow> IPWithMask list" where
  "add_masked L result name addrs = foldl (\<lambda>r addr. addIPWithMask L r addr name) result addrs"

definition GetBondIPAddressesWithMask :: "NetLib \<Rightarrow> Config \<Rightarrow> string \<Rightarrow> IPWithMask list option" where
  "GetBondIPAddressesWithMask L c bondName =
     (let n = Network c in
      case lookup (Bonds n) bondName of
        None \<Rightarrow> Some []
      | Some None \<Rightarrow> None
      | Some (Some bond) \<Rightarrow> do {
          result2 \<leftarrow> for_range (VLANs n)
            (\<lambda>vlanName vlan result.
               Some (if Link vlan = bondName
                     then add_masked L result vlanName (Addresses vlan) else result))
            (add_masked L [] bondName (Addresses bond));
          result3 \<leftarrow> for_range (Bridges n)
            (\<lambda>bridgeName bridge result.
               Some (if bondName \<in> set (BridgeInterfaces bridge)
                     then add_masked L result bridgeName (Addresses bridge) else result))
            result2;
          result4 \<leftarrow> for_range (VLANs n)
            (\<lambda>vlanName vlan result.
               case lookup (Bridges n) (Link vlan) of
                 None \<Rightarrow> Some result
               | Some None \<Rightarrow> None
               | Some (Some bridge) \<Rightarrow>
                   Some (if bondName \<in> set (BridgeInterfaces bridge)
                         then add_masked L result vlanName (Addresses vlan) else result))
            result3;
          result5 \<leftarrow> for_range (Bridges n)
            (\<lambda>bridgeName bridge result.
               map_option (\<lambda>hit. if hit then add_masked L result bridgeName (Addresses bridge)
                                  else result)
                 (has_vlan_on_bond c bondName True (BridgeInterfaces bridge)))
            result4;
          for_range (Tunnels n)
            (\<lambda>tunnelName tunnel result.
               if Addresses tunnel \<noteq> [] then
                 map_option (\<lambda>related. if related
                                         then add_masked L result tunnelName (Addresses tunnel)
                                         else result)
                   (isBondRelated c bondName tunnelName)
               else Some result)
            result5
        })"

section \<open>agent: probing and the test run (agent.go)\<close>

record TestResult =
  TargetHostname :: string
  TargetIP :: string
  SourceIP :: string
  ResultBondName :: string
  TestType :: string
  Success :: bool
  ResponseTimeMS :: int
  ErrorMessage :: string

record TargetInfo =
  Links :: "(string \<times> string list) list"

record Agent =
  aggregatorURL :: string
  hostname :: string

text \<open>
  What the agent does to the outside is recorded as a trace of events: the \<open>arping\<close>
  command it runs (source interface, target), the HTTP GET it sends (URL) and the POST of
  results to the aggregator (URL, source hostname, results; the type of the results is a
  parameter, so that a trace can be read through a projection). The outcomes come from the
  world: each oracle is asked with the number of events so far, so that the same call may
  end differently at different times. An outcome of \<open>arping\<close> is the error of
  \<open>Cmd.Run\<close>, if any, with the elapsed milliseconds; an outcome of a GET or POST is a
  transport error or the status code. Log lines and time stamps are not modelled.
\<close>

datatype 'r event =
  Arping string string
| HttpGet string
| HttpPost string string "'r list"

record World =
  filesystem :: Env
  arping :: "nat \<Rightarrow> string \<Rightarrow> string \<Rightarrow> error option \<times> int"
  http_get :: "nat \<Rightarrow> string \<Rightarrow> (error + int) \<times> int"
  http_post :: "nat \<Rightarrow> string \<Rightarrow> TestResult list \<Rightarrow> error + int"
  events :: "TestResult event list"

definition emit :: "TestResult event \<Rightarrow> World \<Rightarrow> World" where
  "emit e W = W\<lparr>events := events W @ [e]\<rparr>"

definition StatusOK :: int where "StatusOK = 200"
definition StatusCreated :: int where "StatusCreated = 201"
definition StatusAccepted :: int where "StatusAccepted = 202"

definition testConnectivity ::
  "Agent \<Rightarrow> World \<Rightarrow> string \<Rightarrow> string \<Rightarrow> string \<Rightarrow> string \<Rightarrow> string \<Rightarrow> TestResult list \<times> World" where
  "testConnectivity a W targetHostname targetIP bondName sourceIP sourceInterface =
     (let (arpErr, arpElapsed) = arping W (length (events W)) sourceInterface targetIP;
          W1 = emit (Arping sourceInterface targetIP) W;
          arpResult = \<lparr>TargetHostname = targetHostname, TargetIP = targetIP,
                       SourceIP = sourceIP, ResultBondName = bondName, TestType = ''arp'',
                       Success = (arpErr = None), ResponseTimeMS = arpElapsed,
                       ErrorMessage = (case arpErr of
                                         None \<Rightarrow> []
                                       | Some err \<Rightarrow> ''ARP ping failed: '' @ err)\<rparr>;
          results1 = [] @ [arpResult];
          url = ''http://'' @ targetIP @ '':8080/api/sysinfo'';
          (resp, httpElapsed) = http_get W1 (length (events W1)) url;
          W2 = emit (HttpGet url) W1;
          httpResult = \<lparr>TargetHostname = targetHostname, TargetIP = targetIP,
                        SourceIP = sourceIP, ResultBondName = bondName, TestType = ''http'',
                        Success = (case resp of Inl err \<Rightarrow> False | Inr code \<Rightarrow> code = StatusOK),
                        ResponseTimeMS = httpElapsed,
                        ErrorMessage = (case resp of
                                          Inl err \<Rightarrow> err
                                        | Inr code \<Rightarrow> if code = StatusOK then []
                                                      else ''HTTP status '' @ fmt_d code)\<rparr>
      in (results1 @ [httpResult], W2))"

definition SubmitTestResults :: "Agent \<Rightarrow> World \<Rightarrow> TestResult list \<Rightarrow> error option \<times> World" where
  "SubmitTestResults a W results =
     (let url = aggregatorURL a @ ''/api/test-results'';
          resp = http_post W (length (events W)) url results;
          W1 = emit (HttpPost url (hostname a) results) W
      in (case resp of
            Inl err \<Rightarrow> (Some (''failed to submit results: '' @ err), W1)
          | Inr code \<Rightarrow>
              if code \<noteq> StatusOK \<and> code \<noteq> StatusCreated
              then (Some (''submission failed with status '' @ fmt_d code), W1)
              else (None, W1)))"

definition SubmitSingleTestResult :: "Agent \<Rightarrow> World \<Rightarrow> TestResult \<Rightarrow> error option \<times> World" where
  "SubmitSingleTestResult a W result = SubmitTestResults a W [result]"

text \<open>
  \<open>getBondIPAddressesWithMask\<close> of the agent: the masked addresses of every bond of every
  document under \<open>/etc/netplan\<close>; a failed load gives the empty list. \<open>None\<close> is the panic
  of \<open>GetBondIPAddressesWithMask\<close> on a nil entry.
\<close>

fun bonds_with_mask :: "NetLib \<Rightarrow> Config \<Rightarrow> Bond gomap \<Rightarrow> IPWithMask list \<Rightarrow> IPWithMask list option" where
  "bonds_with_mask L config [] allIPs = Some allIPs"
| "bonds_with_mask L config ((bondName, p) # rest) allIPs =
     (case GetBondIPAddressesWithMask L config bondName of
        None \<Rightarrow> None
      | Some bondIPs \<Rightarrow> bonds_with_mask L config rest (allIPs @ bondIPs))"

fun configs_with_mask :: "NetLib \<Rightarrow> Config list \<Rightarrow> IPWithMask list \<Rightarrow> IPWithMask list option" where
  "configs_with_mask L [] allIPs = Some allIPs"
| "configs_with_mask L (config # rest) allIPs =
     (case bonds_with_mask L config (Bonds (Network config)) allIPs of
        None \<Rightarrow> None
      | Some allIPs' \<Rightarrow> configs_with_mask L rest allIPs')"

definition getBondIPAddressesWithMask :: "NetLib \<Rightarrow> Agent \<Rightarrow> World \<Rightarrow> IPWithMask list option" where
  "getBondIPAddressesWithMask L a W =
     (case LoadNetplanConfigsFromDir (filesystem W) ''/etc/netplan'' of
        Inl err \<Rightarrow> Some []
      | Inr configs \<Rightarrow> configs_with_mask L configs [])"

text \<open>
  The search of \<open>RunConnectivityTests\<close> for a local address in the subnet of the target:
  the first hit ends the loop.
\<close>

fun find_local :: "NetLib \<Rightarrow> IPWithMask list \<Rightarrow> string \<Rightarrow> (string \<times> string) option" where
  "find_local L [] targetIP = None"
| "find_local L (myIP # rest) targetIP =
     (if InSameSubnet L (CIDR myIP) targetIP then Some (IP myIP, BondName myIP)
      else find_local L rest targetIP)"

text \<open>Submitting the results of one probe, one by one; the state is the world and \<open>testCount\<close>.\<close>

fun submit_each :: "Agent \<Rightarrow> TestResult list \<Rightarrow> World \<times> nat \<Rightarrow> World \<times> nat" where
  "submit_each a [] (W, testCount) = (W, testCount)"
| "submit_each a (result # results) (W, testCount) =
     (case SubmitSingleTestResult a W result of
        (Some err, W1) \<Rightarrow> submit_each a results (W1, testCount)
      | (None, W1) \<Rightarrow> submit_each a results (W1, testCount + 1))"

fun test_ips ::
  "NetLib \<Rightarrow> Agent \<Rightarrow> IPWithMask list \<Rightarrow> string \<Rightarrow> string \<Rightarrow> string list \<Rightarrow> World \<times> nat \<Rightarrow> World \<times> nat" where
  "test_ips L a myIPs targetHostname bondName [] st = st"
| "test_ips L a myIPs targetHostname bondName (targetIP # ips) (W, testCount) =
     (case find_local L myIPs targetIP of
        None \<Rightarrow> test_ips L a myIPs targetHostname bondName ips (W, testCount)
      | Some (matchingLocalIP, matchingInterface) \<Rightarrow>
          (let (results, W1) = testConnectivity a W targetHostname targetIP bondName
                                 matchingLocalIP matchingInterface
           in test_ips L a myIPs targetHostname bondName ips
                (submit_each a results (W1, testCount))))"

fun test_links ::
  "NetLib \<Rightarrow> Agent \<Rightarrow> IPWithMask list \<Rightarrow> string \<Rightarrow> (string \<times> string list) list \<Rightarrow> World \<times> nat \<Rightarrow> World \<times> nat" where
  "test_links L a myIPs targetHostname [] st = st"
| "test_links L a myIPs targetHostname ((bondName, ips) # links) st =
     test_links L a myIPs targetHostname links (test_ips L a myIPs targetHostname bondName ips st)"

fun test_targets ::
  "NetLib \<Rightarrow> Agent \<Rightarrow> IPWithMask list \<Rightarrow> (string \<times> TargetInfo) list \<Rightarrow> World \<times> nat \<Rightarrow> World \<times> nat" where
  "test_targets L a myIPs [] st = st"
| "test_targets L a myIPs ((targetHostname, targetInfo) # targets) st =
     test_targets L a myIPs targets (test_links L a myIPs targetHostname (Links targetInfo) st)"

text \<open>
  \<open>RunConnectivityTests\<close>: the world after the run and the number of results submitted
  with success. The target maps are association lists in the order of the iteration.
\<close>

definition RunConnectivityTests ::
  "NetLib \<Rightarrow> Agent \<Rightarrow> World \<Rightarrow> (string \<times> TargetInfo) list \<Rightarrow> (World \<times> nat) option" where
  "RunConnectivityTests L a W targets =
     (case getBondIPAddressesWithMask L a W of
        None \<Rightarrow> None
      | Some myIPs \<Rightarrow> Some (test_targets L a myIPs targets (W, 0)))"

section \<open>aggregator: triggering a test run (handleRunTests)\<close>

text \<open>
  A registered server as the handler reads it from the store: the host name, the address
  and the bonds as a JSON text.
\<close>

record Server =
  Hostname :: string
  IPAddress :: string
  ServerBonds :: string

record TestRequest =
  Targets :: "(string \<times> TargetInfo) list"

record triggerResult =
  trig_hostname :: string
  trig_ipAddr :: string
  trig_success :: bool
  trig_err :: "error option"

text \<open>
  The surroundings of the handler: the list of servers the store returns,
  \<open>json.Unmarshal\<close> into a \<open>map[string][]string\<close>, the outcome of the POST that each
  goroutine sends to its agent (a transport error or the status code), and the schedule
  \<open>received\<close>: the servers, by their indices in \<open>servers\<close>, whose result the \<open>select\<close>
  loop receives from the channel before it takes the timeout branch, in the order of
  reception. Clearing the stored results, whose failure is only logged, is not modelled.
\<close>

record Surroundings =
  GetAllServers :: "error + Server list"
  UnmarshalBonds :: "string \<Rightarrow> error + (string \<times> string list) list"
  Post :: "string \<Rightarrow> TestRequest \<Rightarrow> error + int"
  received :: "nat list"

text \<open>The JSON object of the response; a key that is not written is \<open>None\<close>.\<close>

record Response =
  status :: string
  message :: string
  count :: int
  total :: "int option"
  failed_agents :: "string list option"

datatype reply = HttpError int string | Json Response

text \<open>\<open>m[key] = value\<close> on a map kept as an association list.\<close>

fun assign :: "(string \<times> 'v) list \<Rightarrow> string \<Rightarrow> 'v \<Rightarrow> (string \<times> 'v) list" where
  "assign [] key v = [(key, v)]"
| "assign ((k, x) # rest) key v = (if k = key then (k, v) # rest else (k, x) # assign rest key v)"

text \<open>The first loop: a server whose bonds do not decode is left out of \<open>allTargets\<close>.\<close>

fun build_allTargets ::
  "Surroundings \<Rightarrow> Server list \<Rightarrow> (string \<times> TargetInfo) list \<Rightarrow> (string \<times> TargetInfo) list" where
  "build_allTargets S [] allTargets = allTargets"
| "build_allTargets S (server # servers) allTargets =
     (case UnmarshalBonds S (ServerBonds server) of
        Inl err \<Rightarrow> build_allTargets S servers allTargets
      | Inr bonds \<Rightarrow>
          build_allTargets S servers (assign allTargets (Hostname server) \<lparr>Links = bonds\<rparr>))"

text \<open>The targets sent to one agent: all of \<open>allTargets\<close> but the agent itself.\<close>

definition targets_for :: "(string \<times> TargetInfo) list \<Rightarrow> Server \<Rightarrow> (string \<times> TargetInfo) list" where
  "targets_for allTargets server = filter (\<lambda>(hostname, info). hostname \<noteq> Hostname server) allTargets"

definition testRequest_for :: "(string \<times> TargetInfo) list \<Rightarrow> Server \<Rightarrow> TestRequest" where
  "testRequest_for allTargets server = \<lparr>Targets = targets_for allTargets server\<rparr>"

text \<open>
  The arguments with which the goroutine of one server is started: the URL of the agent,
  the host name, the address and the request.
\<close>

definition goroutine_args ::
  "(string \<times> TargetInfo) list \<Rightarrow> Server \<Rightarrow> string \<times> string \<times> string \<times> TestRequest" where
  "goroutine_args allTargets server =
     (''http://'' @ IPAddress server @ '':8080/api/run-tests'',
      Hostname server, IPAddress server, testRequest_for allTargets server)"

text \<open>The goroutine: it posts the request and sends one result on the channel.\<close>

definition trigger :: "Surroundings \<Rightarrow> string \<times> string \<times> string \<times> TestRequest \<Rightarrow> triggerResult" where
  "trigger S = (\<lambda>(url, hostname, ipAddr, req).
     case Post S url req of
       Inl err \<Rightarrow> \<lparr>trig_hostname = hostname, trig_ipAddr = ipAddr,
                    trig_success = False, trig_err = Some err\<rparr>
     | Inr code \<Rightarrow>
         if code = StatusOK \<or> code = StatusAccepted
         then \<lparr>trig_hostname = hostname, trig_ipAddr = ipAddr,
               trig_success = True, trig_err = None\<rparr>
         else \<lparr>trig_hostname = hostname, trig_ipAddr = ipAddr,
               trig_success = False, trig_err = Some (''status '' @ fmt_d code)\<rparr>)"

text \<open>The verb \<open>%v\<close> on an error.\<close>

definition fmt_err :: "error option \<Rightarrow> string" where
  "fmt_err e = (case e of None \<Rightarrow> ''<nil>'' | Some err \<Rightarrow> err)"

text \<open>The line that \<open>failed_agents\<close> gets for a result without success.\<close>

definition failure_line :: "triggerResult \<Rightarrow> string" where
  "failure_line result =
     trig_hostname result @ '' ('' @ trig_ipAddr result @ ''): '' @ fmt_err (trig_err result)"

text \<open>
  The loop that waits for the acknowledgements: \<open>i\<close> counts the iterations, \<open>n\<close> is
  \<open>len(servers)\<close>, and the list holds the results still to be received before the
  timeout; when it is empty the \<open>select\<close> takes the timeout branch.
\<close>

fun collect :: "nat \<Rightarrow> nat \<Rightarrow> triggerResult list \<Rightarrow> int \<times> string list \<Rightarrow> int \<times> string list" where
  "collect i n [] (successCount, failedAgents) =
     (if i < n then
        (let remaining = int n - int i
         in if 0 < remaining
            then (successCount, failedAgents @ [fmt_d remaining @ '' agents timed out''])
            else (successCount, failedAgents))
      else (successCount, failedAgents))"
| "collect i n (result # rest) (successCount, failedAgents) =
     (if i < n then
        (if trig_success result then collect (i + 1) n rest (successCount + 1, failedAgents)
         else collect (i + 1) n rest (successCount, failedAgents @ [failure_line result]))
      else (successCount, failedAgents))"

text \<open>
  Each goroutine sends exactly one result: the schedule is read in its order, and an index
  that names no server, or a server whose result is already received, is passed over.
\<close>

definition arrivals :: "Surroundings \<Rightarrow> nat \<Rightarrow> nat list" where
  "arrivals S n = rev (remdups (rev (filter (\<lambda>i. i < n) (received S))))"

text \<open>
  What the goroutines send, in the order of \<open>servers\<close>, and the handler: its reply and the
  requests it dispatched (URL, host name, address, request), in the order of \<open>servers\<close>.
\<close>

definition sent_results :: "Surroundings \<Rightarrow> Server list \<Rightarrow> triggerResult list" where
  "sent_results S servers =
     map (trigger S) (map (goroutine_args (build_allTargets S servers [])) servers)"

definition handleRunTests ::
  "Surroundings \<Rightarrow> reply \<times> (string \<times> string \<times> string \<times> TestRequest) list" where
  "handleRunTests S =
     (case GetAllServers S of
        Inl err \<Rightarrow> (HttpError 500 (''Failed to get servers: '' @ err), [])
      | Inr servers \<Rightarrow>
          if length servers = 0 then
            (Json \<lparr>status = ''success'', message = ''No servers registered to test'',
                   count = 0, total = None, failed_agents = None\<rparr>, [])
          else
            (let allTargets = build_allTargets S servers [];
                 calls = map (goroutine_args allTargets) servers;
                 sent = map (trigger S) calls;
                 (successCount, failedAgents) =
                   collect 0 (length servers) (map (\<lambda>i. sent ! i) (arrivals S (length servers))) (0, [])
             in if 0 < length failedAgents then
                  (Json \<lparr>status = ''success'',
                         message = ''Tests triggered on '' @ fmt_d successCount @ ''/''
                                     @ fmt_d (int (length servers)) @ '' agent(s). ''
                                     @ fmt_d (int (length failedAgents)) @ '' failed.'',
                         count = successCount, total = Some (int (length servers)),
                         failed_agents = Some failedAgents\<rparr>, calls)
                else
                  (Json \<lparr>status = ''success'',
                         message = ''Test requests sent to '' @ fmt_d successCount @ ''/''
                                     @ fmt_d (int (length servers))
                                     @ '' agent(s). Results will be posted back.'',
                         count = successCount, total = Some (int (length servers)),
                         failed_agents = None\<rparr>, calls)))"



section \<open>The relation closure of the specification\<close>

text \<open>
  The closure as the specification words it, for comparison with the resolver of the
  code: start from the bond; add a VLAN whose link is in the set, a bridge one of whose
  members is in the set, and a tunnel whose endpoint (\<open>local\<close> or \<open>remote\<close>) is in the
  set, until nothing is added.
\<close>

inductive_set closure_spec :: "Config \<Rightarrow> string \<Rightarrow> string set"
  for c :: Config and bondName :: string where
  start: "bondName \<in> closure_spec c bondName"
| vlan: "(name, Some vlan) \<in> set (VLANs (Network c)) \<Longrightarrow> Link vlan \<in> closure_spec c bondName
         \<Longrightarrow> name \<in> closure_spec c bondName"
| bridge: "(name, Some bridge) \<in> set (Bridges (Network c)) \<Longrightarrow> member \<in> set (BridgeInterfaces bridge)
         \<Longrightarrow> member \<in> closure_spec c bondName \<Longrightarrow> name \<in> closure_spec c bondName"
| tunnel_local: "(name, Some tunnel) \<in> set (Tunnels (Network c))
         \<Longrightarrow> Local tunnel \<in> closure_spec c bondName \<Longrightarrow> name \<in> closure_spec c bondName"
| tunnel_remote: "(name, Some tunnel) \<in> set (Tunnels (Network c))
         \<Longrightarrow> Remote tunnel \<in> closure_spec c bondName \<Longrightarrow> name \<in> closure_spec c bondName"

text \<open>
  A map without nil entries; the resolvers read the entries of the maps of VLANs, bridges
  and tunnels.
\<close>

definition no_nil_entries :: "'v gomap \<Rightarrow> bool" where
  "no_nil_entries m = (None \<notin> set (map snd m))"

definition resolver_no_nil :: "Config \<Rightarrow> bool" where
  "resolver_no_nil c =
     (no_nil_entries (VLANs (Network c)) \<and> no_nil_entries (Bridges (Network c))
      \<and> no_nil_entries (Tunnels (Network c)))"

text \<open>
  The cases that the code enumerates, as sets of names: the VLANs on the bond, the
  bridges that have the bond as a member, the VLANs on such a bridge, and the bridges
  that have a VLAN on the bond as a member.
\<close>

definition vlans_on :: "Config \<Rightarrow> string \<Rightarrow> string set" where
  "vlans_on c bondName =
     {name. \<exists>vlan. (name, Some vlan) \<in> set (VLANs (Network c)) \<and> Link vlan = bondName}"

definition bridges_with :: "Config \<Rightarrow> string \<Rightarrow> string set" where
  "bridges_with c bondName =
     {name. \<exists>bridge. (name, Some bridge) \<in> set (Bridges (Network c))
              \<and> bondName \<in> set (BridgeInterfaces bridge)}"

definition vlans_on_bridges_with :: "Config \<Rightarrow> string \<Rightarrow> string set" where
  "vlans_on_bridges_with c bondName =
     {name. \<exists>vlan bridge. (name, Some vlan) \<in> set (VLANs (Network c))
              \<and> lookup (Bridges (Network c)) (Link vlan) = Some (Some bridge)
              \<and> bondName \<in> set (BridgeInterfaces bridge)}"

definition bridges_with_vlan_on :: "Config \<Rightarrow> string \<Rightarrow> string set" where
  "bridges_with_vlan_on c bondName =
     {name. \<exists>bridge member vlan. (name, Some bridge) \<in> set (Bridges (Network c))
              \<and> member \<in> set (BridgeInterfaces bridge)
              \<and> lookup (VLANs (Network c)) member = Some (Some vlan) \<and> Link vlan = bondName}"

text \<open>The addresses that a configuration gives to a name, in any of the four maps read.\<close>

definition addresses_of :: "Config \<Rightarrow> string \<Rightarrow> string set" where
  "addresses_of c name =
     {addr. (\<exists>x. (name, Some x) \<in> set (Bonds (Network c)) \<and> addr \<in> set (Addresses x))
          \<or> (\<exists>x. (name, Some x) \<in> set (VLANs (Network c)) \<and> addr \<in> set (Addresses x))
          \<or> (\<exists>x. (name, Some x) \<in> set (Bridges (Network c)) \<and> addr \<in> set (Addresses x))
          \<or> (\<exists>x. (name, Some x) \<in> set (Tunnels (Network c)) \<and> addr \<in> set (Addresses x))}"

text \<open>
  The names that \<open>GetAllBondRelatedInterfaces\<close> enumerates apart from tunnels, and the
  pairs of owner and address that \<open>GetBondIPAddressesWithMask\<close> enumerates apart from
  tunnels: the addresses of the bond, of the VLANs on it, of the bridges that have it as
  a member, of the VLANs on such a bridge and of the bridges that have a VLAN on the bond
  as a member.
\<close>

definition enumerated_names :: "Config \<Rightarrow> string \<Rightarrow> string set" where
  "enumerated_names c bondName =
     {bondName} \<union> vlans_on c bondName \<union> bridges_with c bondName
     \<union> vlans_on_bridges_with c bondName"

definition enumerated_pairs :: "Config \<Rightarrow> string \<Rightarrow> Bond \<Rightarrow> (string \<times> string) set" where
  "enumerated_pairs c bondName bond =
     {(name, addr). name = bondName \<and> addr \<in> set (Addresses bond)}
     \<union> {(name, addr). \<exists>vlan. (name, Some vlan) \<in> set (VLANs (Network c))
            \<and> Link vlan = bondName \<and> addr \<in> set (Addresses vlan)}
     \<union> {(name, addr). \<exists>bridge. (name, Some bridge) \<in> set (Bridges (Network c))
            \<and> bondName \<in> set (BridgeInterfaces bridge) \<and> addr \<in> set (Addresses bridge)}
     \<union> {(name, addr). \<exists>vlan bridge. (name, Some vlan) \<in> set (VLANs (Network c))
            \<and> lookup (Bridges (Network c)) (Link vlan) = Some (Some bridge)
            \<and> bondName \<in> set (BridgeInterfaces bridge) \<and> addr \<in> set (Addresses vlan)}
     \<union> {(name, addr). \<exists>bridge member vlan. (name, Some bridge) \<in> set (Bridges (Network c))
            \<and> member \<in> set (BridgeInterfaces bridge)
            \<and> lookup (VLANs (Network c)) member = Some (Some vlan) \<and> Link vlan = bondName
            \<and> addr \<in> set (Addresses bridge)}"

text \<open>The masked addresses made from the addresses of one owner: those that parse.\<close>

definition masked :: "NetLib \<Rightarrow> string \<Rightarrow> string list \<Rightarrow> IPWithMask list" where
  "masked L name addrs =
     concat (map (\<lambda>addr. case ParseCIDR L addr of
                            None \<Rightarrow> []
                          | Some (ip, ipNet) \<Rightarrow>
                              [\<lparr>IP = stripCIDR addr, CIDR = addr, IPNet = ipNet, BondName = name\<rparr>])
                 addrs)"

text \<open>
  What \<open>isBondRelated\<close> answers when it does not panic: the name is the bond, or a VLAN on
  the bond, or a VLAN on a bridge that has the bond as a member, or such a bridge.
\<close>

definition related :: "Config \<Rightarrow> string \<Rightarrow> string \<Rightarrow> bool" where
  "related c bondName name =
     (name = bondName
      \<or> (\<exists>vlan. lookup (VLANs (Network c)) name = Some (Some vlan)
            \<and> (Link vlan = bondName
                \<or> (\<exists>bridge. lookup (Bridges (Network c)) (Link vlan) = Some (Some bridge)
                      \<and> bondName \<in> set (BridgeInterfaces bridge))))
      \<or> (\<exists>bridge. lookup (Bridges (Network c)) name = Some (Some bridge)
            \<and> bondName \<in> set (BridgeInterfaces bridge)))"

section \<open>Configurations used in the scenarios\<close>

definition empty_network :: Network where
  "empty_network = \<lparr>Version = 2, Renderer = [], Ethernets = [], Wifis = [], Bridges = [],
     Bonds = [], VLANs = [], Tunnels = [], VRFs = [], Modems = []\<rparr>"

text \<open>The configuration of \<open>TestGetAllBondRelatedInterfaces\<close>: a bond, a VLAN on it, a bridge with it.\<close>

definition bond0 :: Bond where
  "bond0 = \<lparr>Addresses = [''10.0.1.100/24''], MTU = 0, BondInterfaces = [''eth0'', ''eth1'']\<rparr>"

definition test_config :: Config where
  "test_config = \<lparr>Network = empty_network\<lparr>
     Bonds := [(''bond0'', Some bond0)],
     VLANs := [(''bond0.100'',
                Some \<lparr>Addresses = [''10.100.1.1/24''], MTU = 0, ID = 100, Link = ''bond0''\<rparr>)],
     Bridges := [(''br0'',
                Some \<lparr>Addresses = [''172.16.1.1/24''], MTU = 0, BridgeInterfaces = [''bond0'']\<rparr>)]\<rparr>\<rparr>"

text \<open>
  Three levels of nesting: a VLAN on the bond, a bridge over that VLAN, a VLAN on that bridge.
\<close>

definition nested_config :: Config where
  "nested_config = \<lparr>Network = empty_network\<lparr>
     Bonds := [(''bond0'', Some bond0)],
     VLANs := [(''bond0.100'',
                Some \<lparr>Addresses = [''10.100.1.1/24''], MTU = 0, ID = 100, Link = ''bond0''\<rparr>),
               (''br0.200'',
                Some \<lparr>Addresses = [''10.200.1.1/24''], MTU = 0, ID = 200, Link = ''br0''\<rparr>)],
     Bridges := [(''br0'',
                Some \<lparr>Addresses = [''172.16.1.1/24''], MTU = 0,
                      BridgeInterfaces = [''bond0.100'']\<rparr>)]\<rparr>\<rparr>"

text \<open>A cycle of membership: the bridge has a VLAN as a member whose link is the bridge.\<close>

definition cyclic_config :: Config where
  "cyclic_config = \<lparr>Network = empty_network\<lparr>
     Bonds := [(''bond0'', Some bond0)],
     VLANs := [(''br0.5'',
                Some \<lparr>Addresses = [''10.5.0.1/24''], MTU = 0, ID = 5, Link = ''br0''\<rparr>)],
     Bridges := [(''br0'',
                Some \<lparr>Addresses = [''172.16.1.1/24''], MTU = 0,
                      BridgeInterfaces = [''bond0'', ''br0.5'']\<rparr>)]\<rparr>\<rparr>"

text \<open>The configuration of the scenario with a null entry for the VLAN.\<close>

definition null_vlan_config :: Config where
  "null_vlan_config = \<lparr>Network = (Network test_config)\<lparr>VLANs := [(''bond0.100'', None)]\<rparr>\<rparr>"

text \<open>No bond at all, but a VLAN, a bridge and a tunnel that name \<open>bond1\<close>.\<close>

definition dangling_config :: Config where
  "dangling_config = \<lparr>Network = empty_network\<lparr>
     VLANs := [(''bond1.7'',
                Some \<lparr>Addresses = [''10.7.0.1/24''], MTU = 0, ID = 7, Link = ''bond1''\<rparr>)],
     Bridges := [(''br1'',
                Some \<lparr>Addresses = [''172.16.7.1/24''], MTU = 0, BridgeInterfaces = [''bond1'']\<rparr>)],
     Tunnels := [(''bond1'',
                Some \<lparr>Addresses = [''10.9.0.1/30''], MTU = 0, Mode = ''gre'',
                      Local = ''bond1'', Remote = ''192.0.2.1''\<rparr>)]\<rparr>\<rparr>"

text \<open>The document of the validation scenario: version 1 and a VLAN with the id 5000.\<close>

definition invalid_config :: Config where
  "invalid_config = \<lparr>Network = empty_network\<lparr>
     Version := 1,
     VLANs := [(''vlan0'', Some \<lparr>Addresses = [], MTU = 0, ID = 5000, Link = ''eth0''\<rparr>)]\<rparr>\<rparr>"

text \<open>
  The same document with a null entry among its ethernets
  (\<open>ethernets: {eth0: null}\<close> in the YAML text).
\<close>

definition null_entry_config :: Config where
  "null_entry_config = \<lparr>Network = (Network invalid_config)\<lparr>Ethernets := [(''eth0'', None)]\<rparr>\<rparr>"

text \<open>
  A document with a finding of every kind: the version, the renderer, a name that is too
  long, an address without a mask, an MTU out of range, a VLAN id out of range and a VLAN
  without a link.
\<close>

definition messy_config :: Config where
  "messy_config = \<lparr>Network = empty_network\<lparr>
     Version := 1,
     Renderer := ''bogus'',
     Ethernets := [(''enp3s0'', Some \<lparr>Addresses = [''10.0.0.1'', ''10.0.0.2/24''], MTU = 10,
                                       EthernetLink = []\<rparr>)],
     Bonds := [(''averyveryverylongname'', Some bond0)],
     VLANs := [(''vlan0'', Some \<lparr>Addresses = [], MTU = 0, ID = 5000, Link = []\<rparr>)]\<rparr>\<rparr>"

section \<open>The findings of the validation, listed\<close>

text \<open>
  For comparison with the loops of \<open>Validate\<close>: the findings of a document, written out.
  The maps that \<open>Validate\<close> reads are those of the ethernets, wifis, bridges, bonds and
  VLANs. A finding of an entry starts with the kind and the name of the entry.
\<close>

definition validated_no_nil :: "Config \<Rightarrow> bool" where
  "validated_no_nil c =
     (no_nil_entries (Ethernets (Network c)) \<and> no_nil_entries (Wifis (Network c))
      \<and> no_nil_entries (Bridges (Network c)) \<and> no_nil_entries (Bonds (Network c))
      \<and> no_nil_entries (VLANs (Network c)))"

definition prefixed :: "string \<Rightarrow> string \<Rightarrow> string \<Rightarrow> string" where
  "prefixed kind name msg = kind @ '' '' @ name @ '': '' @ msg"

definition name_findings :: "string \<Rightarrow> string list" where
  "name_findings name =
     (if name = [] then [''interface name cannot be empty'']
      else if 15 < length name then [''interface name too long: '' @ name @ '' (max 15 characters)'']
      else [])"

definition address_findings :: "string list \<Rightarrow> string list" where
  "address_findings addrs =
     map (\<lambda>addr. ''address '' @ addr @ '' must include subnet mask'')
         (filter (\<lambda>addr. CHR ''/'' \<notin> set addr) addrs)"

definition mtu_findings :: "int \<Rightarrow> string list" where
  "mtu_findings mtu =
     (if mtu \<noteq> 0 \<and> (mtu < 68 \<or> 65536 < mtu)
      then [''invalid MTU '' @ fmt_d mtu @ '' (must be 68-65536)''] else [])"

definition entry_findings :: "string \<Rightarrow> string \<Rightarrow> 'a CommonInterface_scheme \<Rightarrow> string list" where
  "entry_findings kind name iface =
     map (prefixed kind name)
         (name_findings name @ address_findings (Addresses iface) @ mtu_findings (MTU iface))"

definition vlan_findings :: "string \<Rightarrow> VLAN \<Rightarrow> string list" where
  "vlan_findings name vlan =
     map (prefixed ''vlan'' name)
         (name_findings name
          @ (if ID vlan < 1 \<or> 4094 < ID vlan
             then [''invalid VLAN ID '' @ fmt_d (ID vlan) @ '' (must be 1-4094)''] else [])
          @ (if Link vlan = [] then [''link is required''] else []))"

definition findings_of :: "(string \<Rightarrow> 'v \<Rightarrow> string list) \<Rightarrow> 'v gomap \<Rightarrow> string list" where
  "findings_of f m = concat (map (\<lambda>(name, p). f name (the p)) m)"

definition findings :: "Config \<Rightarrow> string list" where
  "findings c =
     (if Version (Network c) \<noteq> 2
      then [''unsupported network version: '' @ fmt_d (Version (Network c))
              @ '' (only version 2 is supported)'']
      else [])
     @ (if Renderer (Network c) \<noteq> [] \<and> Renderer (Network c) \<noteq> ''networkd''
            \<and> Renderer (Network c) \<noteq> ''NetworkManager''
        then [''invalid renderer: '' @ Renderer (Network c)
                @ '' (must be one of: networkd, NetworkManager)'']
        else [])
     @ findings_of (entry_findings ''ethernet'') (Ethernets (Network c))
     @ findings_of (entry_findings ''wifi'') (Wifis (Network c))
     @ findings_of (entry_findings ''bridge'') (Bridges (Network c))
     @ findings_of (entry_findings ''bond'') (Bonds (Network c))
     @ findings_of vlan_findings (VLANs (Network c))"

section \<open>The directory load as the specification words it\<close>

text \<open>
  For comparison with \<open>LoadNetplanConfigsFromDir\<close>: the load that the specification
  describes skips a document that cannot be read or parsed and returns the documents that
  parsed; it fails only when the enumeration of the files fails.
\<close>

definition LoadNetplanConfigsFromDir_spec :: "Env \<Rightarrow> string \<Rightarrow> error + Config list" where
  "LoadNetplanConfigsFromDir_spec E dir =
     (case Glob E (PathJoin E dir ''*.yaml'') of
        Inl err \<Rightarrow> Inl (''failed to glob yaml files in '' @ dir @ '': '' @ err)
      | Inr files \<Rightarrow>
          (case Glob E (PathJoin E dir ''*.yml'') of
             Inl err \<Rightarrow> Inl (''failed to glob yml files in '' @ dir @ '': '' @ err)
           | Inr ymlFiles \<Rightarrow>
               Inr (concat (map (\<lambda>file. case LoadConfig E file of Inl err \<Rightarrow> [] | Inr config \<Rightarrow> [config])
                                (files @ ymlFiles)))))"

text \<open>
  A directory with two documents: the first does not parse, the second is the document of
  \<open>test_config\<close>. The decoder of this environment knows these two texts only.
\<close>

definition two_files_env :: Env where
  "two_files_env = \<lparr>
     Glob = (\<lambda>pattern. if pattern = ''/etc/netplan/*.yaml''
                        then Inr [''/etc/netplan/01-bad.yaml'', ''/etc/netplan/02-good.yaml'']
                        else Inr []),
     PathJoin = (\<lambda>dir name. dir @ ''/'' @ name),
     ReadFile = (\<lambda>file. if file = ''/etc/netplan/01-bad.yaml'' then Inr ''network: [''
                         else if file = ''/etc/netplan/02-good.yaml'' then Inr ''(bond0 document)''
                         else Inl (''open '' @ file @ '': no such file or directory'')),
     Unmarshal = (\<lambda>data. if data = ''(bond0 document)'' then Inr test_config
                          else Inl ''yaml: did not find expected node content'')\<rparr>"

section \<open>The selection of targets as the specification words it\<close>

text \<open>
  For every triple of target host, bond and target address, in the order of the
  iteration, the first local masked address whose subnet contains the target address is
  selected; a triple without such an address is left out.
\<close>

definition first_match :: "NetLib \<Rightarrow> IPWithMask list \<Rightarrow> string \<Rightarrow> IPWithMask option" where
  "first_match L myIPs targetIP = List.find (\<lambda>myIP. InSameSubnet L (CIDR myIP) targetIP) myIPs"

definition selected ::
  "NetLib \<Rightarrow> IPWithMask list \<Rightarrow> (string \<times> TargetInfo) list
     \<Rightarrow> (string \<times> string \<times> string \<times> string \<times> string) list" where
  "selected L myIPs targets =
     concat (map (\<lambda>(targetHostname, targetInfo).
       concat (map (\<lambda>(bondName, ips).
         concat (map (\<lambda>targetIP.
           case first_match L myIPs targetIP of
             None \<Rightarrow> []
           | Some myIP \<Rightarrow> [(targetHostname, bondName, targetIP, IP myIP, BondName myIP)]) ips))
         (Links targetInfo))) targets)"

text \<open>
  A result without what the outcome of the probe decides: target host, target address,
  source address, bond and test type. The events that one selected triple is to cause,
  with the results so projected: the two probes, then the two results posted one by one.
\<close>

definition result_key :: "TestResult \<Rightarrow> string \<times> string \<times> string \<times> string \<times> string" where
  "result_key r = (TargetHostname r, TargetIP r, SourceIP r, ResultBondName r, TestType r)"

definition expected_events ::
  "Agent \<Rightarrow> string \<times> string \<times> string \<times> string \<times> string
     \<Rightarrow> (string \<times> string \<times> string \<times> string \<times> string) event list" where
  "expected_events a = (\<lambda>(targetHostname, bondName, targetIP, localIP, localInterface).
     [Arping localInterface targetIP,
      HttpGet (''http://'' @ targetIP @ '':8080/api/sysinfo''),
      HttpPost (aggregatorURL a @ ''/api/test-results'') (hostname a)
        [(targetHostname, targetIP, localIP, bondName, ''arp'')],
      HttpPost (aggregatorURL a @ ''/api/test-results'') (hostname a)
        [(targetHostname, targetIP, localIP, bondName, ''http'')]])"

text \<open>
  The end-to-end scenario: the agent has the local address 192.168.1.10/24 on its bond;
  one target is in that subnet and one is not. In this world no probe is answered and
  the aggregator accepts what is posted.
\<close>

definition lan_config :: Config where
  "lan_config = \<lparr>Network = empty_network\<lparr>
     Bonds := [(''bond0'',
                Some \<lparr>Addresses = [''192.168.1.10/24''], MTU = 0,
                      BondInterfaces = [''eth0'', ''eth1'']\<rparr>)]\<rparr>\<rparr>"

definition lan_world :: World where
  "lan_world = \<lparr>
     filesystem = \<lparr>
       Glob = (\<lambda>pattern. if pattern = ''/etc/netplan/*.yaml''
                          then Inr [''/etc/netplan/01-lan.yaml''] else Inr []),
       PathJoin = (\<lambda>dir name. dir @ ''/'' @ name),
       ReadFile = (\<lambda>file. if file = ''/etc/netplan/01-lan.yaml'' then Inr ''(lan document)''
                           else Inl (''open '' @ file @ '': no such file or directory'')),
       Unmarshal = (\<lambda>data. if data = ''(lan document)'' then Inr lan_config
                            else Inl ''yaml: did not find expected node content'')\<rparr>,
     arping = (\<lambda>t iface target. (Some ''exit status 1'', 1500)),
     http_get = (\<lambda>t url. (Inl ''connection refused'', 3)),
     http_post = (\<lambda>t url results. Inr 200),
     events = []\<rparr>"

definition lan_agent :: Agent where
  "lan_agent = \<lparr>aggregatorURL = ''http://aggregator:8080'', hostname = ''host-a''\<rparr>"

definition lan_targets :: "(string \<times> TargetInfo) list" where
  "lan_targets = [(''host-b'', \<lparr>Links = [(''bond0'', [''192.168.1.20''])]\<rparr>),
                  (''host-c'', \<lparr>Links = [(''bond0'', [''10.0.0.5''])]\<rparr>)]"

text \<open>The selection of one bond's addresses and of one host's bonds.\<close>

definition selected_ips ::
  "NetLib \<Rightarrow> IPWithMask list \<Rightarrow> string \<Rightarrow> string \<Rightarrow> string list
     \<Rightarrow> (string \<times> string \<times> string \<times> string \<times> string) list" where
  "selected_ips L myIPs h b ips =
     concat (map (\<lambda>targetIP.
       case first_match L myIPs targetIP of
         None \<Rightarrow> []
       | Some myIP \<Rightarrow> [(h, b, targetIP, IP myIP, BondName myIP)]) ips)"

definition selected_links ::
  "NetLib \<Rightarrow> IPWithMask list \<Rightarrow> string \<Rightarrow> (string \<times> string list) list
     \<Rightarrow> (string \<times> string \<times> string \<times> string \<times> string) list" where
  "selected_links L myIPs h links =
     concat (map (\<lambda>(b, ips). selected_ips L myIPs h b ips) links)"

text \<open>Reading a trace: the probes started (one \<open>arping\<close> each) and the results posted.\<close>

fun is_probe :: "'r event \<Rightarrow> bool" where
  "is_probe (Arping iface target) = True"
| "is_probe (HttpGet url) = False"
| "is_probe (HttpPost url host results) = False"

fun posted :: "'r event \<Rightarrow> 'r list" where
  "posted (Arping iface target) = []"
| "posted (HttpGet url) = []"
| "posted (HttpPost url host results) = results"

definition probes_started :: "'r event list \<Rightarrow> nat" where
  "probes_started evs = length (filter is_probe evs)"

definition results_posted :: "'r event list \<Rightarrow> 'r list" where
  "results_posted evs = concat (map posted evs)"

section \<open>Registries used in the scenarios of the aggregator\<close>

text \<open>
  A decoder that knows the four documents below and rejects every other text; on these
  documents and on the empty text it agrees with \<open>json.Unmarshal\<close>.
\<close>

definition decode_bonds :: "string \<Rightarrow> error + (string \<times> string list) list" where
  "decode_bonds text =
     (if text = ''{\"bond0\":[\"10.0.0.1\"]}'' then Inr [(''bond0'', [''10.0.0.1''])]
      else if text = ''{\"bond0\":[\"10.0.0.2\"]}'' then Inr [(''bond0'', [''10.0.0.2''])]
      else if text = ''{\"bond0\":[\"10.0.0.3\"]}'' then Inr [(''bond0'', [''10.0.0.3''])]
      else if text = ''{}'' then Inr []
      else Inl ''unexpected end of JSON input'')"

definition host_a :: Server where
  "host_a = \<lparr>Hostname = ''host-a'', IPAddress = ''192.0.2.1'',
             ServerBonds = ''{\"bond0\":[\"10.0.0.1\"]}''\<rparr>"

definition host_b :: Server where
  "host_b = \<lparr>Hostname = ''host-b'', IPAddress = ''192.0.2.2'',
             ServerBonds = ''{\"bond0\":[\"10.0.0.2\"]}''\<rparr>"

definition host_c :: Server where
  "host_c = \<lparr>Hostname = ''host-c'', IPAddress = ''192.0.2.3'',
             ServerBonds = ''{\"bond0\":[\"10.0.0.3\"]}''\<rparr>"

text \<open>
  Three registered agents; the agents accept the trigger, but the result of \<open>host-b\<close> is
  not received before the timeout.
\<close>

definition three_agents :: Surroundings where
  "three_agents = \<lparr>GetAllServers = Inr [host_a, host_b, host_c],
     UnmarshalBonds = decode_bonds,
     Post = (\<lambda>url req. Inr 202),
     received = [2, 0]\<rparr>"

text \<open>No registered agent.\<close>

definition no_agents :: Surroundings where
  "no_agents = \<lparr>GetAllServers = Inr [],
     UnmarshalBonds = decode_bonds,
     Post = (\<lambda>url req. Inr 202),
     received = []\<rparr>"

text \<open>
  Three registered agents, all results received before the timeout; the POST to \<open>host-c\<close>
  fails.
\<close>

definition refused_agents :: Surroundings where
  "refused_agents = \<lparr>GetAllServers = Inr [host_a, host_b, host_c],
     UnmarshalBonds = decode_bonds,
     Post = (\<lambda>url req. if url = ''http://192.0.2.3:8080/api/run-tests''
                        then Inl ''connection refused'' else Inr 202),
     received = [1, 0, 2]\<rparr>"

text \<open>The store fails.\<close>

definition broken_store :: Surroundings where
  "broken_store = \<lparr>GetAllServers = Inl ''database is locked'',
     UnmarshalBonds = decode_bonds,
     Post = (\<lambda>url req. Inr 202),
     received = []\<rparr>"



section \<open>The target matrix as the specification words it\<close>



section \<open>Reading the reply of the trigger\<close>

text \<open>
  The servers whose acknowledgement with success is received before the timeout, by
  their indices, and the lines of \<open>failed_agents\<close>: one line for every result without
  success that is received, in the order of reception, and one line that counts the
  results not received before the timeout.
\<close>

definition acknowledged :: "Surroundings \<Rightarrow> Server list \<Rightarrow> nat set" where
  "acknowledged S servers =
     {i \<in> set (arrivals S (length servers)). trig_success (sent_results S servers ! i)}"

definition failed_lines :: "Surroundings \<Rightarrow> Server list \<Rightarrow> string list" where
  "failed_lines S servers =
     map (\<lambda>i. failure_line (sent_results S servers ! i))
         (filter (\<lambda>i. \<not> trig_success (sent_results S servers ! i))
                 (arrivals S (length servers)))
     @ (if length (arrivals S (length servers)) < length servers
        then [fmt_d (int (length servers) - int (length (arrivals S (length servers))))
                @ '' agents timed out'']
        else [])"

text \<open>Two directories whose enumeration fails: at the first pattern, and at the second.\<close>

definition yaml_glob_fails_env :: Env where
  "yaml_glob_fails_env = two_files_env\<lparr>Glob := (\<lambda>pattern. Inl ''syntax error in pattern'')\<rparr>"

definition yml_glob_fails_env :: Env where
  "yml_glob_fails_env = two_files_env\<lparr>
     Glob := (\<lambda>pattern. if pattern = ''/etc/netplan/*.yaml'' then Inr [''/etc/netplan/02-good.yaml'']
                        else Inl ''syntax error in pattern'')\<rparr>"

text \<open>A directory with the second document of \<open>two_files_env\<close> only.\<close>

definition good_file_env :: Env where
  "good_file_env = two_files_env\<lparr>
     Glob := (\<lambda>pattern. if pattern = ''/etc/netplan/*.yml'' then Inr [''/etc/netplan/02-good.yaml'']
                        else Inr [])\<rparr>"

section \<open>Auxiliary lemmas\<close>

lemma stripCIDR_suffix: "stripCIDR (b @ CHR ''/'' # m) = stripCIDR b"
  unfolding stripCIDR_def
  by (induction b) auto

lemma stripCIDR_no_slash: "CHR ''/'' \<notin> set (stripCIDR b)"
  unfolding stripCIDR_def
  by (induction b) auto

lemma no_nil_entries_Cons:
  "no_nil_entries ((k, p) # m) = (p \<noteq> None \<and> no_nil_entries m)"
  by (auto simp: no_nil_entries_def)

text \<open>
  On a map without nil entries, a loop whose body only appends to the state returns the
  state followed by what each entry appended, in the order of the iteration.
\<close>

lemma for_range_collect:
  assumes "no_nil_entries m"
    and "\<And>k v s. (k, Some v) \<in> set m \<Longrightarrow> body k v s = Some (s @ g k v)"
  shows "for_range m body s0 = Some (s0 @ concat (map (\<lambda>(k, p). g k (the p)) m))"
  using assms
proof (induction m arbitrary: s0)
  case Nil
  then show ?case by simp
next
  case (Cons e m)
  obtain k p where e: "e = (k, p)" by (cases e)
  with Cons.prems(1) obtain v where p: "p = Some v" and nn: "no_nil_entries m"
    by (auto simp: no_nil_entries_Cons)
  have b: "body k v s0 = Some (s0 @ g k v)"
    using Cons.prems(2) e p by simp
  have "for_range m body (s0 @ g k v) = Some ((s0 @ g k v) @ concat (map (\<lambda>(k, p). g k (the p)) m))"
    using Cons.IH [OF nn] Cons.prems(2) by simp
  then show ?case using e p b by simp
qed

lemma for_keys_collect:
  assumes "\<And>k s. k \<in> set (map fst m) \<Longrightarrow> body k s = Some (s @ g k)"
  shows "for_keys m body s0 = Some (s0 @ concat (map (\<lambda>(k, p). g k) m))"
  using assms
proof (induction m arbitrary: s0)
  case Nil
  then show ?case by simp
next
  case (Cons e m)
  obtain k p where e: "e = (k, p)" by (cases e)
  have b: "body k s0 = Some (s0 @ g k)"
    using Cons.prems e by simp
  have "for_keys m body (s0 @ g k) = Some ((s0 @ g k) @ concat (map (\<lambda>(k, p). g k) m))"
    using Cons.IH Cons.prems by simp
  then show ?case using e b by simp
qed

lemma lookup_None: "key \<notin> set (map fst m) \<Longrightarrow> lookup m key = None"
  by (simp add: lookup_def map_of_eq_None_iff)

lemma lookup_in: "lookup m key = Some p \<Longrightarrow> (key, p) \<in> set m"
  by (simp add: lookup_def map_of_SomeD)

lemma lookup_no_nil: "no_nil_entries m \<Longrightarrow> lookup m key \<noteq> Some None"
  by (force simp: no_nil_entries_def dest: lookup_in)

section \<open>The subnet matcher\<close>

text \<open>
  Claim C2. \<open>InSameSubnet\<close> is true exactly when its first argument parses as an address
  with a mask, its second argument, cut at the first slash, parses as a bare address,
  and the network of the first contains the second; so a parse failure on either side
  gives false, and the function has no other result than true or false. What follows a
  slash in the second argument is never seen by the parser and does not change the
  answer. This holds for every pair of parsers \<open>L\<close>. With the IPv4 forms of the library,
  \<open>10.150.3.253\<close> is in the subnet of \<open>10.150.0.1/22\<close> and \<open>10.150.4.1\<close> is not, and
  malformed text on either side gives false.
\<close>

theorem InSameSubnet_matches:
  "InSameSubnet L localCIDR remote =
     (\<exists>ip ipNet addr. ParseCIDR L localCIDR = Some (ip, ipNet)
        \<and> ParseIP L (stripCIDR remote) = Some addr \<and> Contains ipNet addr)
   \<and> CHR ''/'' \<notin> set (stripCIDR remote)
   \<and> InSameSubnet L localCIDR (remote @ CHR ''/'' # sfx) = InSameSubnet L localCIDR remote
   \<and> InSameSubnet net4 ''10.150.0.1/22'' ''10.150.3.253'' = True
   \<and> InSameSubnet net4 ''10.150.0.1/22'' ''10.150.4.1'' = False
   \<and> InSameSubnet net4 ''10.150.0.1/22'' ''10.150.0.2/22'' = True
   \<and> InSameSubnet net4 ''10.150.0.1'' ''10.150.0.2'' = False
   \<and> InSameSubnet net4 ''10.150.0.1/22'' ''10.150.0'' = False
   \<and> InSameSubnet net4 ''not-an-address/22'' ''10.150.0.2'' = False
   \<and> InSameSubnet net4 '''' '''' = False"
proof -
  have 1: "InSameSubnet L localCIDR remote =
     (\<exists>ip ipNet addr. ParseCIDR L localCIDR = Some (ip, ipNet)
        \<and> ParseIP L (stripCIDR remote) = Some addr \<and> Contains ipNet addr)"
    by (auto simp: InSameSubnet_def split: option.splits)
  have 2: "InSameSubnet L localCIDR (remote @ CHR ''/'' # sfx) = InSameSubnet L localCIDR remote"
    by (simp add: InSameSubnet_def stripCIDR_suffix split: option.splits prod.splits)
  have 3: "InSameSubnet net4 ''10.150.0.1/22'' ''10.150.3.253'' = True" by code_simp
  have 4: "InSameSubnet net4 ''10.150.0.1/22'' ''10.150.4.1'' = False" by code_simp
  have 5: "InSameSubnet net4 ''10.150.0.1/22'' ''10.150.0.2/22'' = True" by code_simp
  have 6: "InSameSubnet net4 ''10.150.0.1'' ''10.150.0.2'' = False" by code_simp
  have 7: "InSameSubnet net4 ''10.150.0.1/22'' ''10.150.0'' = False" by code_simp
  have 8: "InSameSubnet net4 ''not-an-address/22'' ''10.150.0.2'' = False" by code_simp
  have 9: "InSameSubnet net4 '''' '''' = False" by code_simp
  show ?thesis using 1 2 3 4 5 6 7 8 9 stripCIDR_no_slash by blast
qed

section \<open>A bond that the configuration does not have\<close>

text \<open>
  Claim C10. When the name is not a key of the map of bonds, \<open>GetBondIPAddresses\<close>,
  \<open>GetBondIPAddressesWithMask\<close> and \<open>GetAllBondRelatedInterfaces\<close> return the empty map,
  the empty slice and the empty list, without a panic, whatever the VLANs, bridges and
  tunnels of the configuration name.
\<close>

theorem absent_bond_gives_empty:
  assumes "bondName \<notin> set (map fst (Bonds (Network c)))"
  shows "GetBondIPAddresses c bondName = Some []
       \<and> GetBondIPAddressesWithMask L c bondName = Some []
       \<and> GetAllBondRelatedInterfaces c bondName = Some []"
  using lookup_None [OF assms]
  by (simp add: GetBondIPAddresses_def GetBondIPAddressesWithMask_def
      GetAllBondRelatedInterfaces_def)

theorem absent_bond_gives_empty_witness:
  "''bond1'' \<notin> set (map fst (Bonds (Network dangling_config)))
   \<and> ''bond1.7'' \<in> vlans_on dangling_config ''bond1''
   \<and> ''br1'' \<in> bridges_with dangling_config ''bond1''
   \<and> ''bond1'' \<in> set (map fst (Tunnels (Network dangling_config)))
   \<and> GetBondIPAddresses dangling_config ''bond1'' = Some []
   \<and> GetBondIPAddressesWithMask net4 dangling_config ''bond1'' = Some []
   \<and> GetAllBondRelatedInterfaces dangling_config ''bond1'' = Some []"
proof -
  have a: "''bond1'' \<notin> set (map fst (Bonds (Network dangling_config)))"
    by (simp add: dangling_config_def empty_network_def)
  have b: "''bond1.7'' \<in> vlans_on dangling_config ''bond1''"
    by (simp add: vlans_on_def dangling_config_def empty_network_def)
  have c: "''br1'' \<in> bridges_with dangling_config ''bond1''"
    by (simp add: bridges_with_def dangling_config_def empty_network_def)
  have d: "''bond1'' \<in> set (map fst (Tunnels (Network dangling_config)))"
    by (simp add: dangling_config_def empty_network_def)
  show ?thesis
    using a b c d absent_bond_gives_empty [OF a, of net4] by simp
qed

section \<open>The scenario of the relation closure\<close>

lemma closure_spec_test_config:
  "closure_spec test_config ''bond0'' = {''bond0'', ''bond0.100'', ''br0''}"
proof
  show "closure_spec test_config ''bond0'' \<subseteq> {''bond0'', ''bond0.100'', ''br0''}"
  proof
    fix x assume "x \<in> closure_spec test_config ''bond0''"
    then show "x \<in> {''bond0'', ''bond0.100'', ''br0''}"
      by (induction rule: closure_spec.induct)
         (auto simp: test_config_def empty_network_def)
  qed
next
  have v: "''bond0.100'' \<in> closure_spec test_config ''bond0''"
    by (rule closure_spec.vlan [where vlan = "\<lparr>Addresses = [''10.100.1.1/24''], MTU = 0, ID = 100, Link = ''bond0''\<rparr>"])
       (simp_all add: test_config_def empty_network_def closure_spec.start)
  have b: "''br0'' \<in> closure_spec test_config ''bond0''"
    by (rule closure_spec.bridge [where bridge = "\<lparr>Addresses = [''172.16.1.1/24''], MTU = 0, BridgeInterfaces = [''bond0'']\<rparr>" and member = "''bond0''"])
       (simp_all add: test_config_def empty_network_def closure_spec.start)
  show "{''bond0'', ''bond0.100'', ''br0''} \<subseteq> closure_spec test_config ''bond0''"
    using v b closure_spec.start by simp
qed

text \<open>
  Claim C4. On the configuration with the bond \<open>bond0\<close> (10.0.1.100/24), the VLAN
  \<open>bond0.100\<close> linked to it (10.100.1.1/24) and the bridge \<open>br0\<close> that has it as a member
  (172.16.1.1/24), \<open>GetAllBondRelatedInterfaces\<close> returns exactly the three names, which
  is also the closure of the specification, and \<open>GetBondIPAddressesWithMask\<close> returns
  exactly three masked addresses, one tagged with each of the three owners.
\<close>

theorem test_config_relations:
  "\<exists>ifs ips. GetAllBondRelatedInterfaces test_config ''bond0'' = Some ifs
     \<and> set ifs = {''bond0'', ''bond0.100'', ''br0''}
     \<and> closure_spec test_config ''bond0'' = set ifs
     \<and> GetBondIPAddressesWithMask net4 test_config ''bond0'' = Some ips
     \<and> length ips = 3
     \<and> map (\<lambda>r. (BondName r, CIDR r, IP r)) ips =
         [(''bond0'', ''10.0.1.100/24'', ''10.0.1.100''),
          (''bond0.100'', ''10.100.1.1/24'', ''10.100.1.1''),
          (''br0'', ''172.16.1.1/24'', ''172.16.1.1'')]"
proof -
  have 1: "GetAllBondRelatedInterfaces test_config ''bond0'' = Some [''bond0'', ''bond0.100'', ''br0'']"
    by code_simp
  have 2: "map_option (map (\<lambda>r. (BondName r, CIDR r, IP r)))
             (GetBondIPAddressesWithMask net4 test_config ''bond0'') =
           Some [(''bond0'', ''10.0.1.100/24'', ''10.0.1.100''),
                 (''bond0.100'', ''10.100.1.1/24'', ''10.100.1.1''),
                 (''br0'', ''172.16.1.1/24'', ''172.16.1.1'')]"
    by code_simp
  then obtain ips where ips: "GetBondIPAddressesWithMask net4 test_config ''bond0'' = Some ips"
    and m: "map (\<lambda>r. (BondName r, CIDR r, IP r)) ips =
           [(''bond0'', ''10.0.1.100/24'', ''10.0.1.100''),
                 (''bond0.100'', ''10.100.1.1/24'', ''10.100.1.1''),
                 (''br0'', ''172.16.1.1/24'', ''172.16.1.1'')]"
    by auto
  from m have "length (map (\<lambda>r. (BondName r, CIDR r, IP r)) ips) = 3" by simp
  then have l: "length ips = 3" by simp
  have s: "set [''bond0'', ''bond0.100'', ''br0''] = {''bond0'', ''bond0.100'', ''br0''}" by simp
  show ?thesis
    using 1 ips m l closure_spec_test_config s by (metis (no_types, lifting))
qed




section \<open>Validation\<close>

lemma length_collect_ge:
  "(k, Some v) \<in> set m \<Longrightarrow> length (g k v) \<le> length (findings_of g m)"
  unfolding findings_of_def by (induction m) auto

lemma address_findings_loop:
  "concat (map (\<lambda>addr. if CHR ''/'' \<notin> set addr
                          then [''address '' @ addr @ '' must include subnet mask''] else [])
                 addrs) = address_findings addrs"
  unfolding address_findings_def by (induction addrs) auto

lemma validate_entry_findings:
  "validate_entry kind name iface errors = Some (errors @ entry_findings kind name iface)"
  by (simp add: validate_entry_def validateInterfaceName_def validateCommonInterface_def
      entry_findings_def name_findings_def mtu_findings_def prefixed_def address_findings_loop)

lemma validate_vlan_findings:
  "validate_vlan name vlan errors = Some (errors @ vlan_findings name vlan)"
  by (simp add: validate_vlan_def validateInterfaceName_def vlan_findings_def name_findings_def
      prefixed_def)

lemma for_range_findings:
  assumes "no_nil_entries m" and "\<And>k v s. body k v s = Some (s @ g k v)"
  shows "for_range m body s = Some (s @ findings_of g m)"
  unfolding findings_of_def by (rule for_range_collect [OF assms(1)]) (rule assms(2))

lemma renderer_text: "Join validRenderers '', '' = ''networkd, NetworkManager''"
  by (simp add: validRenderers_def)

text \<open>
  Claim C9, amended. On every document whose maps of ethernets, wifis, bridges, bonds and
  VLANs hold no null entry, \<open>Validate\<close> returns the list of all the findings of the
  document, in the order of its checks: the version, the renderer, then for every
  ethernet, wifi, bridge and bond its name, its addresses without a mask and its MTU, then
  for every VLAN its name, its id and its link. A version other than 2 together with a
  VLAN id outside 1..4094 (the scenario: version 1, id 5000) gives at least two findings.
  \<open>Validate\<close> changes nothing, and \<open>GetInterfaceNames\<close> enumerates the keys of the eight
  maps whatever the findings are. (As stated, for every document, the claim fails: see
  \<open>validation_panics_counterexample\<close>.)
\<close>

theorem validation_is_advisory:
  assumes "validated_no_nil c"
  shows "Validate c = Some (findings c)
     \<and> (\<forall>name vlan. Version (Network c) \<noteq> 2 \<and> (name, Some vlan) \<in> set (VLANs (Network c))
            \<and> (ID vlan < 1 \<or> 4094 < ID vlan) \<longrightarrow> 2 \<le> length (findings c))
     \<and> GetInterfaceNames c =
          map fst (Ethernets (Network c)) @ map fst (Wifis (Network c))
          @ map fst (Bridges (Network c)) @ map fst (Bonds (Network c))
          @ map fst (VLANs (Network c)) @ map fst (Tunnels (Network c))
          @ map fst (VRFs (Network c)) @ map fst (Modems (Network c))"
proof (intro conjI allI impI)
  let ?n = "Network c"
  from assms have nn: "no_nil_entries (Ethernets ?n)" "no_nil_entries (Wifis ?n)"
    "no_nil_entries (Bridges ?n)" "no_nil_entries (Bonds ?n)" "no_nil_entries (VLANs ?n)"
    by (simp_all add: validated_no_nil_def)
  have e: "for_range (Ethernets ?n) (validate_entry ''ethernet'') s
             = Some (s @ findings_of (entry_findings ''ethernet'') (Ethernets ?n))" for s
    by (rule for_range_findings [OF nn(1)]) (rule validate_entry_findings)
  have w: "for_range (Wifis ?n) (validate_entry ''wifi'') s
             = Some (s @ findings_of (entry_findings ''wifi'') (Wifis ?n))" for s
    by (rule for_range_findings [OF nn(2)]) (rule validate_entry_findings)
  have b: "for_range (Bridges ?n) (validate_entry ''bridge'') s
             = Some (s @ findings_of (entry_findings ''bridge'') (Bridges ?n))" for s
    by (rule for_range_findings [OF nn(3)]) (rule validate_entry_findings)
  have d: "for_range (Bonds ?n) (validate_entry ''bond'') s
             = Some (s @ findings_of (entry_findings ''bond'') (Bonds ?n))" for s
    by (rule for_range_findings [OF nn(4)]) (rule validate_entry_findings)
  have v: "for_range (VLANs ?n) validate_vlan s
             = Some (s @ findings_of vlan_findings (VLANs ?n))" for s
    by (rule for_range_findings [OF nn(5)]) (rule validate_vlan_findings)
  have r: "(Renderer ?n \<notin> set validRenderers)
            = (Renderer ?n \<noteq> ''networkd'' \<and> Renderer ?n \<noteq> ''NetworkManager'')"
    by (auto simp: validRenderers_def)
  show "Validate c = Some (findings c)"
    unfolding Validate_def Let_def findings_def
    apply (simp only: e w b d v r renderer_text bind.bind_lunit append_assoc)
    apply simp
    done
next
  fix name vlan
  assume a: "Version (Network c) \<noteq> 2 \<and> (name, Some vlan) \<in> set (VLANs (Network c))
            \<and> (ID vlan < 1 \<or> 4094 < ID vlan)"
  then have "1 \<le> length (vlan_findings name vlan)"
    by (auto simp: vlan_findings_def)
  moreover have "length (vlan_findings name vlan) \<le> length (findings_of vlan_findings (VLANs (Network c)))"
    using a length_collect_ge by fastforce
  ultimately have "1 \<le> length (findings_of vlan_findings (VLANs (Network c)))" by linarith
  then show "2 \<le> length (findings c)"
    using a by (simp add: findings_def)
next
  show "GetInterfaceNames c =
          map fst (Ethernets (Network c)) @ map fst (Wifis (Network c))
          @ map fst (Bridges (Network c)) @ map fst (Bonds (Network c))
          @ map fst (VLANs (Network c)) @ map fst (Tunnels (Network c))
          @ map fst (VRFs (Network c)) @ map fst (Modems (Network c))"
    by (simp add: GetInterfaceNames_def Let_def)
qed


lemma invalid_config_ok: "validated_no_nil invalid_config"
  by (simp add: validated_no_nil_def no_nil_entries_def invalid_config_def empty_network_def)

lemma messy_config_ok: "validated_no_nil messy_config"
  by (simp add: validated_no_nil_def no_nil_entries_def messy_config_def empty_network_def)

lemma invalid_config_findings:
  "findings invalid_config =
     [''unsupported network version: 1 (only version 2 is supported)'',
      ''vlan vlan0: invalid VLAN ID 5000 (must be 1-4094)'']"
  by code_simp

lemma messy_config_findings:
  "findings messy_config =
     [''unsupported network version: 1 (only version 2 is supported)'',
      ''invalid renderer: bogus (must be one of: networkd, NetworkManager)'',
      ''ethernet enp3s0: address 10.0.0.1 must include subnet mask'',
      ''ethernet enp3s0: invalid MTU 10 (must be 68-65536)'',
      ''bond averyveryverylongname: interface name too long: averyveryverylongname (max 15 characters)'',
      ''vlan vlan0: invalid VLAN ID 5000 (must be 1-4094)'',
      ''vlan vlan0: link is required'']"
  by code_simp

theorem validation_is_advisory_witness:
  "validated_no_nil invalid_config
   \<and> Version (Network invalid_config) = 1
   \<and> VLANs (Network invalid_config) =
        [(''vlan0'', Some \<lparr>Addresses = [], MTU = 0, ID = 5000, Link = ''eth0''\<rparr>)]
   \<and> Validate invalid_config =
        Some [''unsupported network version: 1 (only version 2 is supported)'',
              ''vlan vlan0: invalid VLAN ID 5000 (must be 1-4094)'']
   \<and> GetInterfaceNames invalid_config = [''vlan0'']
   \<and> validated_no_nil messy_config
   \<and> Validate messy_config =
        Some [''unsupported network version: 1 (only version 2 is supported)'',
              ''invalid renderer: bogus (must be one of: networkd, NetworkManager)'',
              ''ethernet enp3s0: address 10.0.0.1 must include subnet mask'',
              ''ethernet enp3s0: invalid MTU 10 (must be 68-65536)'',
              ''bond averyveryverylongname: interface name too long: averyveryverylongname (max 15 characters)'',
              ''vlan vlan0: invalid VLAN ID 5000 (must be 1-4094)'',
              ''vlan vlan0: link is required'']
   \<and> GetInterfaceNames messy_config = [''enp3s0'', ''averyveryverylongname'', ''vlan0'']"
proof -
  have 1: "Version (Network invalid_config) = 1"
    by (simp add: invalid_config_def empty_network_def)
  have 2: "VLANs (Network invalid_config) =
        [(''vlan0'', Some \<lparr>Addresses = [], MTU = 0, ID = 5000, Link = ''eth0''\<rparr>)]"
    by (simp add: invalid_config_def empty_network_def)
  have 3: "Validate invalid_config =
        Some [''unsupported network version: 1 (only version 2 is supported)'',
              ''vlan vlan0: invalid VLAN ID 5000 (must be 1-4094)'']"
    using validation_is_advisory [OF invalid_config_ok] invalid_config_findings by simp
  have 4: "GetInterfaceNames invalid_config = [''vlan0'']"
    using validation_is_advisory [OF invalid_config_ok]
    by (simp add: invalid_config_def empty_network_def)
  have 5: "Validate messy_config =
        Some [''unsupported network version: 1 (only version 2 is supported)'',
              ''invalid renderer: bogus (must be one of: networkd, NetworkManager)'',
              ''ethernet enp3s0: address 10.0.0.1 must include subnet mask'',
              ''ethernet enp3s0: invalid MTU 10 (must be 68-65536)'',
              ''bond averyveryverylongname: interface name too long: averyveryverylongname (max 15 characters)'',
              ''vlan vlan0: invalid VLAN ID 5000 (must be 1-4094)'',
              ''vlan vlan0: link is required'']"
    using validation_is_advisory [OF messy_config_ok] messy_config_findings by simp
  have 6: "GetInterfaceNames messy_config = [''enp3s0'', ''averyveryverylongname'', ''vlan0'']"
    using validation_is_advisory [OF messy_config_ok]
    by (simp add: messy_config_def empty_network_def)
  show ?thesis
    using invalid_config_ok messy_config_ok 1 2 3 4 5 6 by (simp only: simp_thms)
qed

text \<open>
  The claim as stated fails on the document of the scenario when it also holds a null
  entry: \<open>Validate\<close> reads a field of the nil pointer and panics, and no list is returned.
\<close>

theorem validation_panics_counterexample:
  "Version (Network null_entry_config) = 1
   \<and> VLANs (Network null_entry_config) =
        [(''vlan0'', Some \<lparr>Addresses = [], MTU = 0, ID = 5000, Link = ''eth0''\<rparr>)]
   \<and> Ethernets (Network null_entry_config) = [(''eth0'', None)]
   \<and> Validate null_entry_config = None"
  by (simp add: null_entry_config_def invalid_config_def empty_network_def Validate_def Let_def)

section \<open>Loading a directory\<close>

lemma load_files_all_ok:
  "\<forall>f \<in> set fs. \<exists>c. LoadConfig E f = Inr c \<Longrightarrow>
   load_files E fs acc = Inr (acc @ map (\<lambda>f. projr (LoadConfig E f)) fs)"
  by (induction fs arbitrary: acc) auto

lemma load_files_first_failure:
  "\<forall>g \<in> set pre. \<exists>c. LoadConfig E g = Inr c \<Longrightarrow> LoadConfig E f = Inl err \<Longrightarrow>
   load_files E (pre @ f # post) acc = Inl (''failed to load config from '' @ f @ '': '' @ err)"
  by (induction pre arbitrary: acc) auto

text \<open>
  Claim C3, amended. The directory load fails with an error when the enumeration of the
  \<open>.yaml\<close> files fails, and when that of the \<open>.yml\<close> files fails. When both succeed,
  it returns the documents of all the files, in the order of the enumeration, if every
  file loads; otherwise it stops at the first file that cannot be read or parsed and
  returns the error of that file, and no document at all. (As stated, the claim fails:
  see \<open>load_skips_nothing_counterexample\<close>.)
\<close>

theorem load_aborts_at_first_failure:
  "(\<forall>err. Glob E (PathJoin E dir ''*.yaml'') = Inl err \<longrightarrow>
      LoadNetplanConfigsFromDir E dir = Inl (''failed to glob yaml files in '' @ dir @ '': '' @ err))
   \<and> (\<forall>files err. Glob E (PathJoin E dir ''*.yaml'') = Inr files
         \<and> Glob E (PathJoin E dir ''*.yml'') = Inl err \<longrightarrow>
      LoadNetplanConfigsFromDir E dir = Inl (''failed to glob yml files in '' @ dir @ '': '' @ err))
   \<and> (\<forall>files ymlFiles. Glob E (PathJoin E dir ''*.yaml'') = Inr files
         \<and> Glob E (PathJoin E dir ''*.yml'') = Inr ymlFiles \<longrightarrow>
        ((\<forall>f \<in> set (files @ ymlFiles). \<exists>c. LoadConfig E f = Inr c) \<longrightarrow>
            LoadNetplanConfigsFromDir E dir =
              Inr (map (\<lambda>f. projr (LoadConfig E f)) (files @ ymlFiles)))
       \<and> (\<forall>pre f post err.
            files @ ymlFiles = pre @ f # post
            \<and> (\<forall>g \<in> set pre. \<exists>c. LoadConfig E g = Inr c) \<and> LoadConfig E f = Inl err \<longrightarrow>
            LoadNetplanConfigsFromDir E dir =
              Inl (''failed to load config from '' @ f @ '': '' @ err)))"
proof (intro conjI impI allI)
  fix err assume "Glob E (PathJoin E dir ''*.yaml'') = Inl err"
  then show "LoadNetplanConfigsFromDir E dir =
      Inl (''failed to glob yaml files in '' @ dir @ '': '' @ err)"
    by (simp add: LoadNetplanConfigsFromDir_def)
next
  fix files err
  assume "Glob E (PathJoin E dir ''*.yaml'') = Inr files
         \<and> Glob E (PathJoin E dir ''*.yml'') = Inl err"
  then show "LoadNetplanConfigsFromDir E dir =
      Inl (''failed to glob yml files in '' @ dir @ '': '' @ err)"
    by (simp add: LoadNetplanConfigsFromDir_def)
next
  fix files ymlFiles
  assume g: "Glob E (PathJoin E dir ''*.yaml'') = Inr files
         \<and> Glob E (PathJoin E dir ''*.yml'') = Inr ymlFiles"
    and "\<forall>f \<in> set (files @ ymlFiles). \<exists>c. LoadConfig E f = Inr c"
  then show "LoadNetplanConfigsFromDir E dir =
              Inr (map (\<lambda>f. projr (LoadConfig E f)) (files @ ymlFiles))"
    using load_files_all_ok [of "files @ ymlFiles" E "[]"]
    by (simp add: LoadNetplanConfigsFromDir_def)
next
  fix files ymlFiles pre f post err
  assume g: "Glob E (PathJoin E dir ''*.yaml'') = Inr files
         \<and> Glob E (PathJoin E dir ''*.yml'') = Inr ymlFiles"
    and a: "files @ ymlFiles = pre @ f # post
            \<and> (\<forall>g \<in> set pre. \<exists>c. LoadConfig E g = Inr c) \<and> LoadConfig E f = Inl err"
  then show "LoadNetplanConfigsFromDir E dir =
              Inl (''failed to load config from '' @ f @ '': '' @ err)"
    using load_files_first_failure [of pre E f err post "[]"]
    by (simp add: LoadNetplanConfigsFromDir_def)
qed

lemma two_files_bad:
  "LoadConfig two_files_env ''/etc/netplan/01-bad.yaml'' =
     Inl ''failed to unmarshal YAML: yaml: did not find expected node content''"
  by (simp add: LoadConfig_def two_files_env_def)

lemma two_files_good:
  "LoadConfig two_files_env ''/etc/netplan/02-good.yaml'' = Inr test_config"
  by (simp add: LoadConfig_def two_files_env_def)

lemma two_files_globs:
  "Glob two_files_env (PathJoin two_files_env ''/etc/netplan'' ''*.yaml'') =
     Inr [''/etc/netplan/01-bad.yaml'', ''/etc/netplan/02-good.yaml'']"
  "Glob two_files_env (PathJoin two_files_env ''/etc/netplan'' ''*.yml'') = Inr []"
  by (simp_all add: two_files_env_def)

theorem load_aborts_at_first_failure_witness:
  "Glob two_files_env (PathJoin two_files_env ''/etc/netplan'' ''*.yaml'') =
     Inr [''/etc/netplan/01-bad.yaml'', ''/etc/netplan/02-good.yaml'']
   \<and> Glob two_files_env (PathJoin two_files_env ''/etc/netplan'' ''*.yml'') = Inr []
   \<and> LoadConfig two_files_env ''/etc/netplan/01-bad.yaml'' =
        Inl ''failed to unmarshal YAML: yaml: did not find expected node content''
   \<and> LoadNetplanConfigsFromDir two_files_env ''/etc/netplan'' =
        Inl (''failed to load config from '' @ ''/etc/netplan/01-bad.yaml'' @ '': ''
             @ ''failed to unmarshal YAML: yaml: did not find expected node content'')
   \<and> Glob yaml_glob_fails_env (PathJoin yaml_glob_fails_env ''/etc/netplan'' ''*.yaml'') =
        Inl ''syntax error in pattern''
   \<and> LoadNetplanConfigsFromDir yaml_glob_fails_env ''/etc/netplan'' =
        Inl (''failed to glob yaml files in '' @ ''/etc/netplan'' @ '': '' @ ''syntax error in pattern'')
   \<and> Glob yml_glob_fails_env (PathJoin yml_glob_fails_env ''/etc/netplan'' ''*.yaml'') =
        Inr [''/etc/netplan/02-good.yaml'']
   \<and> Glob yml_glob_fails_env (PathJoin yml_glob_fails_env ''/etc/netplan'' ''*.yml'') =
        Inl ''syntax error in pattern''
   \<and> LoadNetplanConfigsFromDir yml_glob_fails_env ''/etc/netplan'' =
        Inl (''failed to glob yml files in '' @ ''/etc/netplan'' @ '': '' @ ''syntax error in pattern'')
   \<and> Glob good_file_env (PathJoin good_file_env ''/etc/netplan'' ''*.yaml'') = Inr []
   \<and> Glob good_file_env (PathJoin good_file_env ''/etc/netplan'' ''*.yml'') =
        Inr [''/etc/netplan/02-good.yaml'']
   \<and> LoadConfig good_file_env ''/etc/netplan/02-good.yaml'' = Inr test_config
   \<and> LoadNetplanConfigsFromDir good_file_env ''/etc/netplan'' = Inr [test_config]"
proof -
  have pre: "[''/etc/netplan/01-bad.yaml'', ''/etc/netplan/02-good.yaml''] @ [] =
        [] @ ''/etc/netplan/01-bad.yaml'' # [''/etc/netplan/02-good.yaml'']
        \<and> (\<forall>g \<in> set []. \<exists>c. LoadConfig two_files_env g = Inr c)
        \<and> LoadConfig two_files_env ''/etc/netplan/01-bad.yaml'' =
            Inl ''failed to unmarshal YAML: yaml: did not find expected node content''"
    using two_files_bad by simp
  have 1: "LoadNetplanConfigsFromDir two_files_env ''/etc/netplan'' =
        Inl (''failed to load config from '' @ ''/etc/netplan/01-bad.yaml'' @ '': ''
             @ ''failed to unmarshal YAML: yaml: did not find expected node content'')"
    using load_aborts_at_first_failure [of two_files_env "''/etc/netplan''"] two_files_globs pre
    by blast
  have g2: "Glob yaml_glob_fails_env (PathJoin yaml_glob_fails_env ''/etc/netplan'' ''*.yaml'') =
        Inl ''syntax error in pattern''"
    by (simp add: yaml_glob_fails_env_def)
  have 2: "LoadNetplanConfigsFromDir yaml_glob_fails_env ''/etc/netplan'' =
        Inl (''failed to glob yaml files in '' @ ''/etc/netplan'' @ '': '' @ ''syntax error in pattern'')"
    using load_aborts_at_first_failure [of yaml_glob_fails_env "''/etc/netplan''"] g2
    by blast
  have g3: "Glob yml_glob_fails_env (PathJoin yml_glob_fails_env ''/etc/netplan'' ''*.yaml'') =
        Inr [''/etc/netplan/02-good.yaml'']"
    "Glob yml_glob_fails_env (PathJoin yml_glob_fails_env ''/etc/netplan'' ''*.yml'') =
        Inl ''syntax error in pattern''"
    by (simp_all add: yml_glob_fails_env_def two_files_env_def)
  have 3: "LoadNetplanConfigsFromDir yml_glob_fails_env ''/etc/netplan'' =
        Inl (''failed to glob yml files in '' @ ''/etc/netplan'' @ '': '' @ ''syntax error in pattern'')"
    using load_aborts_at_first_failure [of yml_glob_fails_env "''/etc/netplan''"] g3
    by blast
  have g4: "Glob good_file_env (PathJoin good_file_env ''/etc/netplan'' ''*.yaml'') = Inr []"
    "Glob good_file_env (PathJoin good_file_env ''/etc/netplan'' ''*.yml'') =
        Inr [''/etc/netplan/02-good.yaml'']"
    by (simp_all add: good_file_env_def two_files_env_def)
  have l4: "LoadConfig good_file_env ''/etc/netplan/02-good.yaml'' = Inr test_config"
    by (simp add: LoadConfig_def good_file_env_def two_files_env_def)
  then have a4: "\<forall>f \<in> set ([] @ [''/etc/netplan/02-good.yaml'']). \<exists>c. LoadConfig good_file_env f = Inr c"
    by simp
  have "LoadNetplanConfigsFromDir good_file_env ''/etc/netplan'' =
          Inr (map (\<lambda>f. projr (LoadConfig good_file_env f)) ([] @ [''/etc/netplan/02-good.yaml'']))"
    using load_aborts_at_first_failure [of good_file_env "''/etc/netplan''"] g4 a4
    by blast
  then have 4: "LoadNetplanConfigsFromDir good_file_env ''/etc/netplan'' = Inr [test_config]"
    using l4 by simp
  show ?thesis
    using two_files_globs two_files_bad 1 g2 2 g3 3 g4 l4 4 by (simp only: simp_thms)
qed

text \<open>
  The claim as stated fails on a directory whose first document does not parse and whose
  second does: the specification's load returns the second document, the code returns
  the error of the first and nothing else.
\<close>

theorem load_skips_nothing_counterexample:
  "Glob two_files_env (PathJoin two_files_env ''/etc/netplan'' ''*.yaml'') =
     Inr [''/etc/netplan/01-bad.yaml'', ''/etc/netplan/02-good.yaml'']
   \<and> Glob two_files_env (PathJoin two_files_env ''/etc/netplan'' ''*.yml'') = Inr []
   \<and> LoadConfig two_files_env ''/etc/netplan/02-good.yaml'' = Inr test_config
   \<and> LoadNetplanConfigsFromDir_spec two_files_env ''/etc/netplan'' = Inr [test_config]
   \<and> LoadNetplanConfigsFromDir two_files_env ''/etc/netplan'' =
        Inl ''failed to load config from /etc/netplan/01-bad.yaml: failed to unmarshal YAML: yaml: did not find expected node content''
   \<and> LoadNetplanConfigsFromDir two_files_env ''/etc/netplan''
        \<noteq> LoadNetplanConfigsFromDir_spec two_files_env ''/etc/netplan''"
proof -
  have s: "LoadNetplanConfigsFromDir_spec two_files_env ''/etc/netplan'' = Inr [test_config]"
    by (simp add: LoadNetplanConfigsFromDir_spec_def two_files_globs two_files_bad two_files_good)
  have c: "LoadNetplanConfigsFromDir two_files_env ''/etc/netplan'' =
        Inl ''failed to load config from /etc/netplan/01-bad.yaml: failed to unmarshal YAML: yaml: did not find expected node content''"
    by (simp add: LoadNetplanConfigsFromDir_def two_files_globs two_files_bad)
  show ?thesis using s c two_files_globs two_files_good by simp
qed

section \<open>The prober\<close>

text \<open>
  Claim C5. For every target, source and world, \<open>testConnectivity\<close> returns exactly two
  results, the first of type \<open>arp\<close> and the second of type \<open>http\<close>, both for the given
  target, source address and bond; the trace gains exactly the \<open>arping\<close> run and the HTTP
  GET, in this order, whatever the outcome of either: the success of each result is
  decided by its own probe alone.
\<close>

theorem testConnectivity_two_results:
  "\<exists>arpResult httpResult W'.
     testConnectivity a W targetHostname targetIP bondName sourceIP sourceInterface
       = ([arpResult, httpResult], W')
     \<and> TestType arpResult = ''arp'' \<and> TestType httpResult = ''http''
     \<and> result_key arpResult = (targetHostname, targetIP, sourceIP, bondName, ''arp'')
     \<and> result_key httpResult = (targetHostname, targetIP, sourceIP, bondName, ''http'')
     \<and> Success arpResult = (fst (arping W (length (events W)) sourceInterface targetIP) = None)
     \<and> Success httpResult =
         (fst (http_get W (Suc (length (events W))) (''http://'' @ targetIP @ '':8080/api/sysinfo''))
            = Inr StatusOK)
     \<and> events W' = events W @ [Arping sourceInterface targetIP,
                                 HttpGet (''http://'' @ targetIP @ '':8080/api/sysinfo'')]"
  by (auto simp: testConnectivity_def Let_def emit_def result_key_def split: prod.splits sum.splits)

section \<open>The test run of the agent\<close>

lemma testConnectivity_shape:
  "testConnectivity a W h ip b sip sif = (results, W') \<Longrightarrow>
     map result_key results = [(h, ip, sip, b, ''arp''), (h, ip, sip, b, ''http'')]
     \<and> events W' = events W @ [Arping sif ip, HttpGet (''http://'' @ ip @ '':8080/api/sysinfo'')]"
  by (auto simp: testConnectivity_def Let_def emit_def result_key_def split: prod.splits sum.splits)

lemma SubmitSingleTestResult_events:
  "SubmitSingleTestResult a W r = (e, W1) \<Longrightarrow>
     events W1 = events W @ [HttpPost (aggregatorURL a @ ''/api/test-results'') (hostname a) [r]]"
  by (auto simp: SubmitSingleTestResult_def SubmitTestResults_def Let_def emit_def
           split: sum.splits if_splits)

lemma submit_each_events:
  "submit_each a results (W, n) = (W', n') \<Longrightarrow>
     events W' = events W
       @ map (\<lambda>r. HttpPost (aggregatorURL a @ ''/api/test-results'') (hostname a) [r]) results"
proof (induction results arbitrary: W n)
  case Nil
  then show ?case by simp
next
  case (Cons r results)
  obtain e W1 where s: "SubmitSingleTestResult a W r = (e, W1)"
    by (cases "SubmitSingleTestResult a W r")
  then obtain n1 where "submit_each a results (W1, n1) = (W', n')"
    using Cons.prems by (cases e) auto
  then have "events W' = events W1
       @ map (\<lambda>r. HttpPost (aggregatorURL a @ ''/api/test-results'') (hostname a) [r]) results"
    by (rule Cons.IH)
  then show ?case using SubmitSingleTestResult_events [OF s] by simp
qed

lemma find_local_first_match:
  "find_local L myIPs targetIP =
     map_option (\<lambda>myIP. (IP myIP, BondName myIP)) (first_match L myIPs targetIP)"
  by (induction myIPs) (auto simp: first_match_def)

lemma probe_events:
  assumes t: "testConnectivity a W h ip b lip lif = (results, W1)"
    and s: "submit_each a results (W1, n) = (W2, n2)"
  shows "map (map_event result_key) (events W2) =
           map (map_event result_key) (events W) @ expected_events a (h, b, ip, lip, lif)"
proof -
  from testConnectivity_shape [OF t]
  have k: "map result_key results = [(h, ip, lip, b, ''arp''), (h, ip, lip, b, ''http'')]"
    and e1: "events W1 = events W @ [Arping lif ip, HttpGet (''http://'' @ ip @ '':8080/api/sysinfo'')]"
    by simp_all
  from k obtain r1 r2 where r: "results = [r1, r2]"
    and k1: "result_key r1 = (h, ip, lip, b, ''arp'')" and k2: "result_key r2 = (h, ip, lip, b, ''http'')"
    by (cases results; cases "tl results"; auto)
  from submit_each_events [OF s] e1 r k1 k2 show ?thesis
    by (simp add: expected_events_def)
qed

lemma test_ips_events:
  "test_ips L a myIPs h b ips (W, n) = (W', n') \<Longrightarrow>
     map (map_event result_key) (events W') =
       map (map_event result_key) (events W)
         @ concat (map (expected_events a) (selected_ips L myIPs h b ips))"
proof (induction ips arbitrary: W n)
  case Nil
  then show ?case by (simp add: selected_ips_def)
next
  case (Cons ip ips)
  show ?case
  proof (cases "first_match L myIPs ip")
    case None
    then have "find_local L myIPs ip = None" by (simp add: find_local_first_match)
    then have "test_ips L a myIPs h b ips (W, n) = (W', n')" using Cons.prems by simp
    from Cons.IH [OF this] None show ?thesis by (simp add: selected_ips_def)
  next
    case (Some m)
    then have f: "find_local L myIPs ip = Some (IP m, BondName m)"
      by (simp add: find_local_first_match)
    obtain results W1 where t: "testConnectivity a W h ip b (IP m) (BondName m) = (results, W1)"
      by (cases "testConnectivity a W h ip b (IP m) (BondName m)")
    obtain W2 n2 where s: "submit_each a results (W1, n) = (W2, n2)"
      by (cases "submit_each a results (W1, n)")
    have "test_ips L a myIPs h b ips (W2, n2) = (W', n')"
      using Cons.prems f t s by simp
    from Cons.IH [OF this] probe_events [OF t s] Some show ?thesis
      by (simp add: selected_ips_def)
  qed
qed

lemma test_links_events:
  "test_links L a myIPs h links (W, n) = (W', n') \<Longrightarrow>
     map (map_event result_key) (events W') =
       map (map_event result_key) (events W)
         @ concat (map (expected_events a) (selected_links L myIPs h links))"
proof (induction links arbitrary: W n)
  case Nil
  then show ?case by (simp add: selected_links_def)
next
  case (Cons l links)
  obtain b ips where l: "l = (b, ips)" by (cases l)
  obtain W1 n1 where t: "test_ips L a myIPs h b ips (W, n) = (W1, n1)"
    by (cases "test_ips L a myIPs h b ips (W, n)")
  have "test_links L a myIPs h links (W1, n1) = (W', n')"
    using Cons.prems l t by simp
  from Cons.IH [OF this] test_ips_events [OF t] l show ?case
    by (simp add: selected_links_def)
qed

lemma selected_unfold:
  "selected L myIPs targets =
     concat (map (\<lambda>(h, info). selected_links L myIPs h (Links info)) targets)"
  by (simp add: selected_def selected_links_def selected_ips_def)

lemma test_targets_events:
  "test_targets L a myIPs targets (W, n) = (W', n') \<Longrightarrow>
     map (map_event result_key) (events W') =
       map (map_event result_key) (events W)
         @ concat (map (expected_events a) (selected L myIPs targets))"
proof (induction targets arbitrary: W n)
  case Nil
  then show ?case by (simp add: selected_unfold)
next
  case (Cons t targets)
  obtain h info where t: "t = (h, info)" by (cases t)
  obtain W1 n1 where l: "test_links L a myIPs h (Links info) (W, n) = (W1, n1)"
    by (cases "test_links L a myIPs h (Links info) (W, n)")
  have "test_targets L a myIPs targets (W1, n1) = (W', n')"
    using Cons.prems t l by simp
  from Cons.IH [OF this] test_links_events [OF l] t show ?case
    by (simp add: selected_unfold)
qed


lemma probes_started_map: "probes_started (map (map_event f) evs) = probes_started evs"
proof -
  have "\<And>e. is_probe (map_event f e) = is_probe e"
    by (case_tac e) simp_all
  then show ?thesis
    by (induction evs) (simp_all add: probes_started_def)
qed

lemma results_posted_map: "results_posted (map (map_event f) evs) = map f (results_posted evs)"
proof -
  have "\<And>e. posted (map_event f e) = map f (posted e)"
    by (case_tac e) simp_all
  then show ?thesis
    by (induction evs) (simp_all add: results_posted_def)
qed

lemma probes_started_append: "probes_started (xs @ ys) = probes_started xs + probes_started ys"
  by (simp add: probes_started_def)

lemma results_posted_append: "results_posted (xs @ ys) = results_posted xs @ results_posted ys"
  by (simp add: results_posted_def)

lemma probes_started_expected:
  "probes_started (concat (map (expected_events a) sel)) = length sel"
  by (induction sel) (auto simp: probes_started_def expected_events_def)

lemma results_posted_expected:
  "results_posted (concat (map (expected_events a) sel)) =
     concat (map (\<lambda>(h, b, ip, lip, lif). [(h, ip, lip, b, ''arp''), (h, ip, lip, b, ''http'')]) sel)"
  by (induction sel) (auto simp: results_posted_def expected_events_def)

text \<open>
  Claim C6. When the local masked addresses are \<open>myIPs\<close>, a run over a target set ends,
  and what it adds to the trace is, for every triple of target host, bond and target
  address in the order of the iteration for which some local masked address is in the
  subnet of the target, taking the first such address in the order of \<open>myIPs\<close>: the two
  probes from the interface of that address and the two results, carrying its IP, posted
  one by one; a triple without such an address adds nothing. So the probes started are as
  many as the triples selected and the results posted twice as many. In the scenario
  (local 192.168.1.10/24, targets 192.168.1.20 and 10.0.0.5) one target is probed and two
  results are posted: see the witness.
\<close>

theorem RunConnectivityTests_selects_first_match:
  assumes "getBondIPAddressesWithMask L a W = Some myIPs"
  shows "\<exists>W' n. RunConnectivityTests L a W targets = Some (W', n)
     \<and> map (map_event result_key) (events W') =
         map (map_event result_key) (events W)
           @ concat (map (expected_events a) (selected L myIPs targets))
     \<and> probes_started (events W') = probes_started (events W) + length (selected L myIPs targets)
     \<and> map result_key (results_posted (events W')) =
         map result_key (results_posted (events W))
           @ concat (map (\<lambda>(h, b, ip, lip, lif). [(h, ip, lip, b, ''arp''), (h, ip, lip, b, ''http'')])
                         (selected L myIPs targets))
     \<and> length (results_posted (events W')) =
         length (results_posted (events W)) + 2 * length (selected L myIPs targets)"
proof -
  obtain W' n where t: "test_targets L a myIPs targets (W, 0) = (W', n)"
    by (cases "test_targets L a myIPs targets (W, 0)")
  have r: "RunConnectivityTests L a W targets = Some (W', n)"
    using assms t by (simp add: RunConnectivityTests_def)
  have e: "map (map_event result_key) (events W') =
         map (map_event result_key) (events W)
           @ concat (map (expected_events a) (selected L myIPs targets))"
    by (rule test_targets_events [OF t])
  have "probes_started (map (map_event result_key) (events W')) =
        probes_started (map (map_event result_key) (events W)
           @ concat (map (expected_events a) (selected L myIPs targets)))"
    using e by simp
  then have p: "probes_started (events W') =
        probes_started (events W) + length (selected L myIPs targets)"
    by (simp only: probes_started_map probes_started_append probes_started_expected)
  have "results_posted (map (map_event result_key) (events W')) =
        results_posted (map (map_event result_key) (events W)
           @ concat (map (expected_events a) (selected L myIPs targets)))"
    using e by simp
  then have k: "map result_key (results_posted (events W')) =
         map result_key (results_posted (events W))
           @ concat (map (\<lambda>(h, b, ip, lip, lif). [(h, ip, lip, b, ''arp''), (h, ip, lip, b, ''http'')])
                         (selected L myIPs targets))"
    by (simp only: results_posted_map results_posted_append results_posted_expected)
  have c: "length (concat (map (\<lambda>(h, b, ip, lip, lif). [(h, ip, lip, b, ''arp''), (h, ip, lip, b, ''http'')]) sel))
           = 2 * length sel" for sel :: "(string \<times> string \<times> string \<times> string \<times> string) list"
    by (induction sel) auto
  have "length (map result_key (results_posted (events W'))) =
        length (map result_key (results_posted (events W))
           @ concat (map (\<lambda>(h, b, ip, lip, lif). [(h, ip, lip, b, ''arp''), (h, ip, lip, b, ''http'')])
                         (selected L myIPs targets)))"
    using k by simp
  then have l: "length (results_posted (events W')) =
         length (results_posted (events W)) + 2 * length (selected L myIPs targets)"
    by (simp add: c)
  show ?thesis using r e p k l by blast
qed

lemma lan_myIPs:
  "getBondIPAddressesWithMask net4 lan_agent lan_world =
     Some [\<lparr>IP = ''192.168.1.10'', CIDR = ''192.168.1.10/24'',
            IPNet = \<lparr>NetIP = [192, 168, 1, 0], NetMask = [255, 255, 255, 0]\<rparr>,
            BondName = ''bond0''\<rparr>]"
  by code_simp

lemma lan_selected:
  "selected net4 [\<lparr>IP = ''192.168.1.10'', CIDR = ''192.168.1.10/24'',
            IPNet = \<lparr>NetIP = [192, 168, 1, 0], NetMask = [255, 255, 255, 0]\<rparr>,
            BondName = ''bond0''\<rparr>] lan_targets =
     [(''host-b'', ''bond0'', ''192.168.1.20'', ''192.168.1.10'', ''bond0'')]"
  by code_simp

theorem RunConnectivityTests_selects_first_match_witness:
  "getBondIPAddressesWithMask net4 lan_agent lan_world =
     Some [\<lparr>IP = ''192.168.1.10'', CIDR = ''192.168.1.10/24'',
            IPNet = \<lparr>NetIP = [192, 168, 1, 0], NetMask = [255, 255, 255, 0]\<rparr>,
            BondName = ''bond0''\<rparr>]
   \<and> InSameSubnet net4 ''192.168.1.10/24'' ''192.168.1.20'' = True
   \<and> InSameSubnet net4 ''192.168.1.10/24'' ''10.0.0.5'' = False
   \<and> (\<exists>W' n. RunConnectivityTests net4 lan_agent lan_world lan_targets = Some (W', n)
        \<and> map (map_event result_key) (events W') =
             [Arping ''bond0'' ''192.168.1.20'',
              HttpGet ''http://192.168.1.20:8080/api/sysinfo'',
              HttpPost ''http://aggregator:8080/api/test-results'' ''host-a''
                [(''host-b'', ''192.168.1.20'', ''192.168.1.10'', ''bond0'', ''arp'')],
              HttpPost ''http://aggregator:8080/api/test-results'' ''host-a''
                [(''host-b'', ''192.168.1.20'', ''192.168.1.10'', ''bond0'', ''http'')]]
        \<and> probes_started (events W') = 1
        \<and> length (results_posted (events W')) = 2)"
proof -
  have i: "InSameSubnet net4 ''192.168.1.10/24'' ''192.168.1.20'' = True" by code_simp
  have o: "InSameSubnet net4 ''192.168.1.10/24'' ''10.0.0.5'' = False" by code_simp
  have w: "events lan_world = []" by (simp add: lan_world_def)
  have x: "expected_events lan_agent (''host-b'', ''bond0'', ''192.168.1.20'', ''192.168.1.10'', ''bond0'') =
             [Arping ''bond0'' ''192.168.1.20'',
              HttpGet ''http://192.168.1.20:8080/api/sysinfo'',
              HttpPost ''http://aggregator:8080/api/test-results'' ''host-a''
                [(''host-b'', ''192.168.1.20'', ''192.168.1.10'', ''bond0'', ''arp'')],
              HttpPost ''http://aggregator:8080/api/test-results'' ''host-a''
                [(''host-b'', ''192.168.1.20'', ''192.168.1.10'', ''bond0'', ''http'')]]"
    by (simp add: expected_events_def lan_agent_def)
  obtain W' n where r: "RunConnectivityTests net4 lan_agent lan_world lan_targets = Some (W', n)"
    and e: "map (map_event result_key) (events W') =
         map (map_event result_key) (events lan_world)
           @ concat (map (expected_events lan_agent)
               [(''host-b'', ''bond0'', ''192.168.1.20'', ''192.168.1.10'', ''bond0'')])"
    and p: "probes_started (events W') = probes_started (events lan_world)
           + length [(''host-b'', ''bond0'', ''192.168.1.20'', ''192.168.1.10'', ''bond0'')]"
    and l: "length (results_posted (events W')) = length (results_posted (events lan_world))
           + 2 * length [(''host-b'', ''bond0'', ''192.168.1.20'', ''192.168.1.10'', ''bond0'')]"
    using RunConnectivityTests_selects_first_match [OF lan_myIPs, of lan_targets]
    unfolding lan_selected by blast
  have e': "map (map_event result_key) (events W') =
             [Arping ''bond0'' ''192.168.1.20'',
              HttpGet ''http://192.168.1.20:8080/api/sysinfo'',
              HttpPost ''http://aggregator:8080/api/test-results'' ''host-a''
                [(''host-b'', ''192.168.1.20'', ''192.168.1.10'', ''bond0'', ''arp'')],
              HttpPost ''http://aggregator:8080/api/test-results'' ''host-a''
                [(''host-b'', ''192.168.1.20'', ''192.168.1.10'', ''bond0'', ''http'')]]"
    using e w x by simp
  have p': "probes_started (events W') = 1"
    using p w by (simp add: probes_started_def)
  have l': "length (results_posted (events W')) = 2"
    using l w by (simp add: results_posted_def)
  have "\<exists>W' n. RunConnectivityTests net4 lan_agent lan_world lan_targets = Some (W', n)
        \<and> map (map_event result_key) (events W') =
             [Arping ''bond0'' ''192.168.1.20'',
              HttpGet ''http://192.168.1.20:8080/api/sysinfo'',
              HttpPost ''http://aggregator:8080/api/test-results'' ''host-a''
                [(''host-b'', ''192.168.1.20'', ''192.168.1.10'', ''bond0'', ''arp'')],
              HttpPost ''http://aggregator:8080/api/test-results'' ''host-a''
                [(''host-b'', ''192.168.1.20'', ''192.168.1.10'', ''bond0'', ''http'')]]
        \<and> probes_started (events W') = 1
        \<and> length (results_posted (events W')) = 2"
    by (rule exI [of _ W'], rule exI [of _ n]) (simp only: r e' p' l' simp_thms)
  then show ?thesis
    by (simp only: lan_myIPs i o simp_thms)
qed

section \<open>The reply of the aggregator to a trigger\<close>

lemma collect_spec:
  "i + length rs \<le> n \<Longrightarrow>
   collect i n rs (sc, fa) =
     (sc + int (length (filter trig_success rs)),
      fa @ map failure_line (filter (\<lambda>r. \<not> trig_success r) rs)
         @ (if i + length rs < n
            then [fmt_d (int n - int (i + length rs)) @ '' agents timed out''] else []))"
proof (induction rs arbitrary: i sc fa)
  case Nil
  then show ?case by (auto simp: Let_def)
next
  case (Cons r rs)
  then have "i < n" and "(i + 1) + length rs \<le> n" by simp_all
  then show ?case using Cons.IH [of "i + 1"] by simp
qed

lemma arrivals_distinct: "distinct (arrivals S n)"
  by (simp add: arrivals_def)

lemma arrivals_bound: "i \<in> set (arrivals S n) \<Longrightarrow> i < n"
  by (simp add: arrivals_def)

lemma arrivals_length: "length (arrivals S n) \<le> n"
proof -
  have "set (arrivals S n) \<subseteq> {..<n}" using arrivals_bound by auto
  then have "card (set (arrivals S n)) \<le> card {..<n}" by (intro card_mono) simp_all
  then show ?thesis using arrivals_distinct [of S n] by (simp add: distinct_card)
qed

lemma filter_card:
  "distinct xs \<Longrightarrow> length (filter P xs) = card {i \<in> set xs. P i}"
proof -
  assume "distinct xs"
  then have "distinct (filter P xs)" by simp
  then have "card (set (filter P xs)) = length (filter P xs)" by (rule distinct_card)
  then show ?thesis by simp
qed

lemma collect_arrivals:
  "collect 0 (length servers)
     (map (\<lambda>i. sent_results S servers ! i) (arrivals S (length servers))) (0, [])
   = (int (card (acknowledged S servers)), failed_lines S servers)"
proof -
  let ?n = "length servers"
  let ?sent = "sent_results S servers"
  let ?rs = "map (\<lambda>i. ?sent ! i) (arrivals S ?n)"
  have c: "collect 0 ?n ?rs (0, []) =
     (int (length (filter trig_success ?rs)),
      map failure_line (filter (\<lambda>r. \<not> trig_success r) ?rs)
         @ (if length ?rs < ?n
            then [fmt_d (int ?n - int (length ?rs)) @ '' agents timed out''] else []))"
    using collect_spec [of 0 ?rs ?n 0 "[]"] arrivals_length [of S ?n] by simp
  have s: "length (filter trig_success ?rs) = card (acknowledged S servers)"
    using filter_card [OF arrivals_distinct, of "\<lambda>i. trig_success (?sent ! i)" S ?n]
    by (simp add: filter_map comp_def acknowledged_def)
  have f: "map failure_line (filter (\<lambda>r. \<not> trig_success r) ?rs)
         @ (if length ?rs < ?n
            then [fmt_d (int ?n - int (length ?rs)) @ '' agents timed out''] else [])
         = failed_lines S servers"
    by (simp add: failed_lines_def filter_map comp_def)
  show ?thesis using c s f by simp
qed

lemma handleRunTests_nonempty:
  assumes "GetAllServers S = Inr servers" and "servers \<noteq> []"
  shows "handleRunTests S =
     (if 0 < length (failed_lines S servers) then
        (Json \<lparr>status = ''success'',
               message = ''Tests triggered on '' @ fmt_d (int (card (acknowledged S servers))) @ ''/''
                           @ fmt_d (int (length servers)) @ '' agent(s). ''
                           @ fmt_d (int (length (failed_lines S servers))) @ '' failed.'',
               count = int (card (acknowledged S servers)), total = Some (int (length servers)),
               failed_agents = Some (failed_lines S servers)\<rparr>,
         map (goroutine_args (build_allTargets S servers [])) servers)
      else
        (Json \<lparr>status = ''success'',
               message = ''Test requests sent to '' @ fmt_d (int (card (acknowledged S servers))) @ ''/''
                           @ fmt_d (int (length servers)) @ '' agent(s). Results will be posted back.'',
               count = int (card (acknowledged S servers)), total = Some (int (length servers)),
               failed_agents = None\<rparr>,
         map (goroutine_args (build_allTargets S servers [])) servers))"
  using assms collect_arrivals [of servers S, unfolded sent_results_def]
  by (simp add: handleRunTests_def Let_def)

lemma one_missing:
  assumes "card (acknowledged S servers) + 1 = length servers"
  shows "length (failed_lines S servers) = 1"
proof -
  let ?n = "length servers"
  let ?sent = "sent_results S servers"
  let ?ok = "filter (\<lambda>i. trig_success (?sent ! i)) (arrivals S ?n)"
  let ?ko = "filter (\<lambda>i. \<not> trig_success (?sent ! i)) (arrivals S ?n)"
  have "length ?ok = card (acknowledged S servers)"
    using filter_card [OF arrivals_distinct, of "\<lambda>i. trig_success (?sent ! i)" S ?n]
    by (simp add: acknowledged_def)
  then have ok: "length ?ok + 1 = ?n" using assms by simp
  have sum: "length ?ok + length ?ko = length (arrivals S ?n)"
    by (rule sum_length_filter_compl)
  show ?thesis
  proof (cases "length (arrivals S ?n) < ?n")
    case True
    then have "length ?ko = 0" using ok sum by linarith
    then show ?thesis using True by (simp add: failed_lines_def)
  next
    case False
    then have "length (arrivals S ?n) = ?n" using arrivals_length [of S ?n] by simp
    then have "length ?ko = 1" using ok sum by linarith
    then show ?thesis using False by (simp add: failed_lines_def)
  qed
qed

text \<open>
  Claim C7, amended. When the store fails, the reply is an error of status 500. When no
  agent is registered, the reply has the count 0 and neither a total nor failed agents.
  When at least one agent is registered, the reply reports as count the number of agents
  whose acknowledgement with success was received before the timeout and as total the
  number of registered agents; \<open>failed_agents\<close> holds one line for every agent whose
  failure was received, in the order of reception, and, when some results were not
  received before the timeout, one more line with their number; the key is absent when
  there is no such line. So when all registered agents but one acknowledge in time, as
  with 3 agents of which 1 fails to acknowledge, the count is the total less one and
  \<open>failed_agents\<close> has exactly one line. (As stated, for every registry, the claim fails:
  see \<open>handleRunTests_no_total_counterexample\<close>.)
\<close>

theorem handleRunTests_counts:
  "(\<forall>err. GetAllServers S = Inl err \<longrightarrow>
      handleRunTests S = (HttpError 500 (''Failed to get servers: '' @ err), []))
   \<and> (GetAllServers S = Inr [] \<longrightarrow>
      handleRunTests S =
        (Json \<lparr>status = ''success'', message = ''No servers registered to test'',
               count = 0, total = None, failed_agents = None\<rparr>, []))
   \<and> (\<forall>servers. GetAllServers S = Inr servers \<and> servers \<noteq> [] \<longrightarrow>
        (\<exists>r calls. handleRunTests S = (Json r, calls)
           \<and> count r = int (card (acknowledged S servers))
           \<and> total r = Some (int (length servers))
           \<and> failed_agents r = (if failed_lines S servers = [] then None
                                  else Some (failed_lines S servers))
           \<and> acknowledged S servers \<subseteq> {..<length servers}
           \<and> (card (acknowledged S servers) + 1 = length servers \<longrightarrow>
                 count r = int (length servers) - 1
                 \<and> failed_agents r = Some (failed_lines S servers)
                 \<and> length (failed_lines S servers) = 1)))"
proof (intro conjI allI impI)
  fix err assume "GetAllServers S = Inl err"
  then show "handleRunTests S = (HttpError 500 (''Failed to get servers: '' @ err), [])"
    by (simp add: handleRunTests_def)
next
  assume "GetAllServers S = Inr []"
  then show "handleRunTests S =
        (Json \<lparr>status = ''success'', message = ''No servers registered to test'',
               count = 0, total = None, failed_agents = None\<rparr>, [])"
    by (simp add: handleRunTests_def)
next
  fix servers assume a: "GetAllServers S = Inr servers \<and> servers \<noteq> []"
  then have h: "handleRunTests S =
     (if 0 < length (failed_lines S servers) then
        (Json \<lparr>status = ''success'',
               message = ''Tests triggered on '' @ fmt_d (int (card (acknowledged S servers))) @ ''/''
                           @ fmt_d (int (length servers)) @ '' agent(s). ''
                           @ fmt_d (int (length (failed_lines S servers))) @ '' failed.'',
               count = int (card (acknowledged S servers)), total = Some (int (length servers)),
               failed_agents = Some (failed_lines S servers)\<rparr>,
         map (goroutine_args (build_allTargets S servers [])) servers)
      else
        (Json \<lparr>status = ''success'',
               message = ''Test requests sent to '' @ fmt_d (int (card (acknowledged S servers))) @ ''/''
                           @ fmt_d (int (length servers)) @ '' agent(s). Results will be posted back.'',
               count = int (card (acknowledged S servers)), total = Some (int (length servers)),
               failed_agents = None\<rparr>,
         map (goroutine_args (build_allTargets S servers [])) servers))"
    using handleRunTests_nonempty by blast
  have sub: "acknowledged S servers \<subseteq> {..<length servers}"
    using arrivals_bound by (auto simp: acknowledged_def)
  have one: "card (acknowledged S servers) + 1 = length servers \<longrightarrow>
               length (failed_lines S servers) = 1"
    using one_missing by blast
  show "\<exists>r calls. handleRunTests S = (Json r, calls)
           \<and> count r = int (card (acknowledged S servers))
           \<and> total r = Some (int (length servers))
           \<and> failed_agents r = (if failed_lines S servers = [] then None
                                  else Some (failed_lines S servers))
           \<and> acknowledged S servers \<subseteq> {..<length servers}
           \<and> (card (acknowledged S servers) + 1 = length servers \<longrightarrow>
                 count r = int (length servers) - 1
                 \<and> failed_agents r = Some (failed_lines S servers)
                 \<and> length (failed_lines S servers) = 1)"
  proof (cases "0 < length (failed_lines S servers)")
    case True
    then show ?thesis using h sub one by auto
  next
    case False
    then show ?thesis using h sub one by auto
  qed
qed


lemma three_agents_reply:
  "fst (handleRunTests three_agents) =
    Json \<lparr>status = ''success'',
      message = ''Tests triggered on 2/3 agent(s). 1 failed.'', count = 2,
      total = Some 3, failed_agents = Some [''1 agents timed out'']\<rparr>"
  by code_simp

lemma refused_agents_reply:
  "fst (handleRunTests refused_agents) =
    Json \<lparr>status = ''success'',
      message = ''Tests triggered on 2/3 agent(s). 1 failed.'', count = 2,
      total = Some 3, failed_agents = Some [''host-c (192.0.2.3): connection refused'']\<rparr>"
  by code_simp

theorem handleRunTests_counts_witness:
  "GetAllServers broken_store = Inl ''database is locked''
   \<and> handleRunTests broken_store = (HttpError 500 (''Failed to get servers: '' @ ''database is locked''), [])
   \<and> GetAllServers no_agents = Inr []
   \<and> handleRunTests no_agents =
        (Json \<lparr>status = ''success'', message = ''No servers registered to test'',
               count = 0, total = None, failed_agents = None\<rparr>, [])
   \<and> GetAllServers three_agents = Inr [host_a, host_b, host_c]
   \<and> card (acknowledged three_agents [host_a, host_b, host_c]) + 1 = length [host_a, host_b, host_c]
   \<and> (\<exists>r calls. handleRunTests three_agents = (Json r, calls)
         \<and> count r = 2 \<and> total r = Some 3
         \<and> failed_agents r = Some [''1 agents timed out''])
   \<and> length (failed_lines three_agents [host_a, host_b, host_c]) = 1
   \<and> GetAllServers refused_agents = Inr [host_a, host_b, host_c]
   \<and> card (acknowledged refused_agents [host_a, host_b, host_c]) + 1 = length [host_a, host_b, host_c]
   \<and> (\<exists>r calls. handleRunTests refused_agents = (Json r, calls)
         \<and> count r = 2 \<and> total r = Some 3
         \<and> failed_agents r = Some [''host-c (192.0.2.3): connection refused''])
   \<and> length (failed_lines refused_agents [host_a, host_b, host_c]) = 1"
proof -
  have b: "GetAllServers broken_store = Inl ''database is locked''"
    by (simp add: broken_store_def)
  have b': "handleRunTests broken_store = (HttpError 500 (''Failed to get servers: '' @ ''database is locked''), [])"
    using handleRunTests_counts [of broken_store] b by blast
  have z: "GetAllServers no_agents = Inr []"
    by (simp add: no_agents_def)
  have z': "handleRunTests no_agents =
        (Json \<lparr>status = ''success'', message = ''No servers registered to test'',
               count = 0, total = None, failed_agents = None\<rparr>, [])"
    using handleRunTests_counts [of no_agents] z by blast
  have n: "[host_a, host_b, host_c] \<noteq> []" by simp
  have g: "GetAllServers three_agents = Inr [host_a, host_b, host_c]"
    by (simp add: three_agents_def)
  obtain r calls where h: "handleRunTests three_agents = (Json r, calls)"
    and c: "count r = int (card (acknowledged three_agents [host_a, host_b, host_c]))"
    and o: "card (acknowledged three_agents [host_a, host_b, host_c]) + 1 = length [host_a, host_b, host_c] \<longrightarrow>
              length (failed_lines three_agents [host_a, host_b, host_c]) = 1"
    using handleRunTests_counts [of three_agents] g n by blast
  have r: "r = \<lparr>status = ''success'',
      message = ''Tests triggered on 2/3 agent(s). 1 failed.'', count = 2,
      total = Some 3, failed_agents = Some [''1 agents timed out'']\<rparr>"
    using h three_agents_reply by simp
  then have a: "card (acknowledged three_agents [host_a, host_b, host_c]) + 1 = length [host_a, host_b, host_c]"
    using c by simp
  have l: "length (failed_lines three_agents [host_a, host_b, host_c]) = 1"
    using o a by blast
  have e: "\<exists>r calls. handleRunTests three_agents = (Json r, calls)
         \<and> count r = 2 \<and> total r = Some 3
         \<and> failed_agents r = Some [''1 agents timed out'']"
    using h r by simp
  have g2: "GetAllServers refused_agents = Inr [host_a, host_b, host_c]"
    by (simp add: refused_agents_def)
  obtain r2 calls2 where h2: "handleRunTests refused_agents = (Json r2, calls2)"
    and c2: "count r2 = int (card (acknowledged refused_agents [host_a, host_b, host_c]))"
    and o2: "card (acknowledged refused_agents [host_a, host_b, host_c]) + 1 = length [host_a, host_b, host_c] \<longrightarrow>
              length (failed_lines refused_agents [host_a, host_b, host_c]) = 1"
    using handleRunTests_counts [of refused_agents] g2 n by blast
  have r2: "r2 = \<lparr>status = ''success'',
      message = ''Tests triggered on 2/3 agent(s). 1 failed.'', count = 2,
      total = Some 3, failed_agents = Some [''host-c (192.0.2.3): connection refused'']\<rparr>"
    using h2 refused_agents_reply by simp
  then have a2: "card (acknowledged refused_agents [host_a, host_b, host_c]) + 1 = length [host_a, host_b, host_c]"
    using c2 by simp
  have l2: "length (failed_lines refused_agents [host_a, host_b, host_c]) = 1"
    using o2 a2 by blast
  have e2: "\<exists>r calls. handleRunTests refused_agents = (Json r, calls)
         \<and> count r = 2 \<and> total r = Some 3
         \<and> failed_agents r = Some [''host-c (192.0.2.3): connection refused'']"
    using h2 r2 by simp
  show ?thesis
    using b b' z z' g a e l g2 a2 e2 l2 by (simp only: simp_thms)
qed

text \<open>
  The claim as stated fails when no agent is registered: the reply carries no total at
  all, where the claim wants the total 0.
\<close>

theorem handleRunTests_no_total_counterexample:
  "GetAllServers no_agents = Inr []
   \<and> handleRunTests no_agents =
       (Json \<lparr>status = ''success'', message = ''No servers registered to test'',
              count = 0, total = None, failed_agents = None\<rparr>, [])
   \<and> (\<exists>r calls. handleRunTests no_agents = (Json r, calls)
         \<and> total r \<noteq> Some (int (length ([] :: Server list))))"
  by (simp add: handleRunTests_def no_agents_def)

section \<open>The targets dispatched to each agent\<close>
















end
